theory Spec2Isabelle
  imports Complex_Main "HOL-Library.List_Lexorder" "HOL-Library.Char_ord" "HOL-Library.AList" "HOL-Library.Log_Nat"
begin

section \<open>Overview\<close>

text \<open>
  A model of the orchestration code of \<^verbatim>\<open>pdf2pdfocr.py\<close>: the page-range partitioner
  (\<^verbatim>\<open>calculate_ranges\<close>), the overlay assembler (\<^verbatim>\<open>join_ocred_pdf\<close>), the final merge with
  its repair fallback and the rebuild path (\<^verbatim>\<open>build_final_output\<close>,
  \<^verbatim>\<open>try_repair_input_and_merge\<close>, \<^verbatim>\<open>rebuild_and_merge\<close>) and the finalizer
  (\<^verbatim>\<open>edit_producer\<close>).

  Python integers are \<open>int\<close>, strings are \<open>string\<close>. The fields of the program object
  that these methods read form the record \<open>pdf2pdfocr\<close>. What the methods change, namely
  the file system, the two output streams and the external processes started, is the record
  \<open>world\<close>, passed in and returned. An exception or a call of \<^verbatim>\<open>exit\<close> is a value
  \<open>Inl (failure, world)\<close>: the failure and the state in which the process stops.
\<close>

section \<open>Failures\<close>

text \<open>
  \<open>SystemExit n\<close> is \<^verbatim>\<open>exit(n)\<close>; the others are the Python exceptions of the same
  name, none of which the program catches on the paths modelled here (the one
  \<^verbatim>\<open>except TypeError\<close> of \<^verbatim>\<open>edit_producer\<close> is part of \<open>copy_metadata\<close>).
\<close>

datatype failure = SystemExit int | ArithmeticError | ZeroDivisionError | OverflowError
  | TypeError | ValueError | KeyError | PdfReadError | SameFileError | FileNotFoundError


section \<open>The page-range partitioner\<close>













section \<open>Documents, files and the world\<close>

text \<open>
  A page is identified by a name. A metadata value as the PDF library hands it out is a
  text string (a Python \<^verbatim>\<open>str\<close>), a byte string, or an object of another kind, of which
  arrays are the ones the program's comments mention. A metadata dictionary is an
  association list in insertion order.
\<close>

type_synonym page = string

datatype py_value = Str string | ByteString string | ArrayObject "py_value list"

type_synonym info = "(string \<times> py_value) list"

text \<open>
  A file is a readable PDF document (its pages and its information dictionary) or anything
  else. The file system is an association list from absolute paths to contents, in the
  order in which a directory listing returns them.
\<close>

datatype file_content = Pdf "page list" info | Data

type_synonym fs = "(string \<times> file_content) list"

text \<open>
  Output lines without their time stamps. \<open>We_have_ocred_files n\<close> stands for the line
  \<^verbatim>\<open>We have n ocr'ed files\<close>; every other line is its text.
\<close>

datatype level = LOG | DEBUG

datatype message = Text string | We_have_ocred_files nat

text \<open>
  The places where the program starts an external process and waits for it. The world
  records every start with its place and its argument list.
\<close>

datatype call_site = Merge_pdftk | Merge | Rebuild_convert | Rebuild_merge
  | Repair_pdf2ps | Repair_ps2pdf | Repair_merge

record world =
  files :: fs
  stdout :: "(level \<times> message) list"
  stderr :: "message list"
  calls :: "(call_site \<times> string list) list"

text \<open>
  What the program does not decide: the effect of an external process on the file system,
  as a function of its argument list, and \<^verbatim>\<open>shlex.split\<close> (\<open>None\<close> when it raises
  \<^verbatim>\<open>ValueError\<close>). The theorems hold for every such environment.
\<close>

record os_env =
  run :: "string list \<Rightarrow> fs \<Rightarrow> fs"
  shlex_split :: "string \<Rightarrow> string list option"

text \<open>
  The fields of the program object. \<open>path_pdf2ps\<close> and \<open>path_ps2pdf\<close> are \<open>None\<close> when
  Ghostscript was not found at start-up, which only prints a warning.
\<close>

record pdf2pdfocr =
  tmp_dir :: string
  prefix :: string
  input_file :: string
  input_file_type :: string
  input_file_is_encrypted :: bool
  input_file_metadata :: "info option"
  use_deskew_mode :: bool
  force_rebuild_mode :: bool
  use_pdftk :: bool
  user_convert_params :: string
  delete_temps :: bool
  verbose_mode :: bool
  output_file :: string
  path_pdftk :: string
  path_convert :: string
  path_pdf2ps :: "string option"
  path_ps2pdf :: "string option"
  path_this_python :: string
  script_dir :: string

definition extension_images :: string where
  "extension_images = ''jpg''"

type_synonym result = "(failure \<times> world) + world"

text \<open>
  \<^verbatim>\<open>eprint\<close> writes to the error stream, \<^verbatim>\<open>log\<close> to standard output, \<^verbatim>\<open>debug\<close> to standard
  output in verbose mode only.
\<close>

definition eprint :: "message \<Rightarrow> world \<Rightarrow> world" where
  "eprint m w = w\<lparr>stderr := stderr w @ [m]\<rparr>"

definition debug :: "pdf2pdfocr \<Rightarrow> message \<Rightarrow> world \<Rightarrow> world" where
  "debug self m w = (if verbose_mode self then w\<lparr>stdout := stdout w @ [(DEBUG, m)]\<rparr> else w)"

definition log :: "message \<Rightarrow> world \<Rightarrow> world" where
  "log m w = w\<lparr>stdout := stdout w @ [(LOG, m)]\<rparr>"

definition isfile :: "fs \<Rightarrow> string \<Rightarrow> bool" where
  "isfile fs p = (map_of fs p \<noteq> None)"

text \<open>
  \<^verbatim>\<open>glob.glob(dir + pattern)\<close> for a directory path \<open>dir\<close> that ends with the separator:
  the entries directly under \<open>dir\<close> whose name matches the pattern, where \<open>*\<close> matches any
  run of characters and a name that starts with a dot matches only a pattern that does.
  The patterns of the program consist of the prefix (five characters out of \<open>A-Z\<close> and
  \<open>0-9\<close>), \<open>*\<close> and a literal extension, so the other wildcards of \<^verbatim>\<open>fnmatch\<close> do not
  occur.
\<close>

fun fnmatch :: "string \<Rightarrow> string \<Rightarrow> bool" where
  "fnmatch [] [] = True"
| "fnmatch [] (c # cs) = False"
| "fnmatch (p # ps) [] = (p = CHR ''*'' \<and> fnmatch ps [])"
| "fnmatch (p # ps) (c # cs) =
     (if p = CHR ''*'' then fnmatch ps (c # cs) \<or> fnmatch (p # ps) cs
      else p = c \<and> fnmatch ps cs)"

definition ishidden :: "string \<Rightarrow> bool" where
  "ishidden n = (case n of [] \<Rightarrow> False | c # cs \<Rightarrow> c = CHR ''.'')"

definition listdir :: "fs \<Rightarrow> string \<Rightarrow> string list" where
  "listdir fs dir =
     filter (\<lambda>n. n \<noteq> [] \<and> CHR ''/'' \<notin> set n)
       (map (drop (length dir)) (filter (\<lambda>p. take (length dir) p = dir) (map fst fs)))"

definition glob :: "fs \<Rightarrow> string \<Rightarrow> string \<Rightarrow> string list" where
  "glob fs dir pat =
     map (\<lambda>n. dir @ n)
       (filter (\<lambda>n. fnmatch pat n \<and> (if ishidden pat then True else \<not> ishidden n))
          (listdir fs dir))"

text \<open>\<^verbatim>\<open>cleanup\<close>: remove every temporary file of this run, or say that they are kept.\<close>

definition cleanup :: "pdf2pdfocr \<Rightarrow> world \<Rightarrow> world" where
  "cleanup self w =
     (if delete_temps self then
        w\<lparr>files := filter (\<lambda>e. fst e \<notin> set (glob (files w) (tmp_dir self) (''*'' @ prefix self @ ''*.*'')))
                      (files w)\<rparr>
      else eprint (Text (''Temporary files kept in '' @ tmp_dir self)) w)"

section \<open>The overlay assembler\<close>

text \<open>The assembled overlay \<^verbatim>\<open>-ocr.pdf\<close> and the merged candidate \<^verbatim>\<open>-OUTPUT.pdf\<close>.\<close>

definition ocr_pdf :: "pdf2pdfocr \<Rightarrow> string" where
  "ocr_pdf self = tmp_dir self @ prefix self @ ''-ocr.pdf''"

definition output_pdf :: "pdf2pdfocr \<Rightarrow> string" where
  "output_pdf self = tmp_dir self @ prefix self @ ''-OUTPUT.pdf''"

text \<open>
  The loop that appends every overlay to the merger: the pages read so far are the
  accumulator. Reading a file that is not a PDF document raises.
\<close>

fun merger_append :: "fs \<Rightarrow> string list \<Rightarrow> page list \<Rightarrow> failure + page list" where
  "merger_append fs [] acc = Inr acc"
| "merger_append fs (text_pdf_file # rest) acc =
     (case map_of fs text_pdf_file of
        Some (Pdf pages i) \<Rightarrow> merger_append fs rest (acc @ pages)
      | Some Data \<Rightarrow> Inl PdfReadError
      | None \<Rightarrow> Inl FileNotFoundError)"

text \<open>\<^verbatim>\<open>shutil.copyfile\<close>, which refuses to copy a file onto itself.\<close>

definition copyfile :: "string \<Rightarrow> string \<Rightarrow> fs \<Rightarrow> failure + fs" where
  "copyfile src dst fs =
     (if src = dst then Inl SameFileError
      else case map_of fs src of
             None \<Rightarrow> Inl FileNotFoundError
           | Some c \<Rightarrow> Inr (AList.update dst c fs))"

text \<open>
  \<^verbatim>\<open>join_ocred_pdf\<close>. The information dictionary of the assembled overlay is never read
  by the program and is modelled as empty.
\<close>

definition joined_ocred_files :: message where
  "joined_ocred_files = Text ''Joined ocr'ed PDF files''"

definition no_pdf_files_generated :: message where
  "no_pdf_files_generated =
     Text ''No PDF files generated after OCR. This is not expected. Aborting.''"

definition text_pdf_file_list :: "pdf2pdfocr \<Rightarrow> world \<Rightarrow> string list" where
  "text_pdf_file_list self w = sort (glob (files w) (tmp_dir self) (prefix self @ ''*.pdf''))"

definition join_ocred_pdf :: "pdf2pdfocr \<Rightarrow> world \<Rightarrow> result" where
  "join_ocred_pdf self w =
     (let w1 = debug self (We_have_ocred_files (length (text_pdf_file_list self w))) w
      in if length (text_pdf_file_list self w) > 1 then
           (case merger_append (files w1) (text_pdf_file_list self w) [] of
              Inl e \<Rightarrow> Inl (e, w1)
            | Inr pages \<Rightarrow>
                Inr (debug self joined_ocred_files
                      (w1\<lparr>files := AList.update (ocr_pdf self) (Pdf pages []) (files w1)\<rparr>)))
         else if length (text_pdf_file_list self w) = 1 then
           (case copyfile (hd (text_pdf_file_list self w)) (ocr_pdf self) (files w1) of
              Inl e \<Rightarrow> Inl (e, w1)
            | Inr fs' \<Rightarrow> Inr (debug self joined_ocred_files (w1\<lparr>files := fs'\<rparr>)))
         else
           Inl (SystemExit 1, cleanup self (eprint no_pdf_files_generated w1)))"

section \<open>The final merge\<close>

text \<open>
  \<^verbatim>\<open>subprocess.Popen(argv, ...)\<close> followed by \<^verbatim>\<open>wait()\<close>. When the error stream of the
  process goes to a log file, opening the log creates or empties it before the process
  runs.
\<close>

definition popen :: "os_env \<Rightarrow> call_site \<Rightarrow> string list \<Rightarrow> string option \<Rightarrow> world \<Rightarrow> world" where
  "popen os site argv errlog w =
     (let fs0 = (case errlog of None \<Rightarrow> files w | Some l \<Rightarrow> AList.update l Data (files w))
      in w\<lparr>files := run os argv fs0, calls := calls w @ [(site, argv)]\<rparr>)"

text \<open>The presets of \<^verbatim>\<open>rebuild_and_merge\<close> and the choice among them.\<close>

definition preset_fast :: string where
  "preset_fast = ''-threshold 60% -compress Group4''"

definition preset_best :: string where
  "preset_best = ''-colors 2 -colorspace gray -normalize -threshold 60% -compress Group4''"

definition preset_grayscale :: string where
  "preset_grayscale = ''-threshold 85% -morphology Dilate Diamond -compress Group4''"

definition preset_jpeg :: string where
  "preset_jpeg = ''-strip -interlace Plane -gaussian-blur 0.05 -quality 50% -compress JPEG''"

definition preset_jpeg2000 :: string where
  "preset_jpeg2000 = ''-quality 32% -compress JPEG2000''"

definition convert_params :: "pdf2pdfocr \<Rightarrow> string" where
  "convert_params self =
     (let params =
        (if user_convert_params self = ''fast'' then preset_fast
         else if user_convert_params self = ''best'' then preset_best
         else if user_convert_params self = ''grasyscale'' then preset_grayscale
         else if user_convert_params self = ''jpeg'' then preset_jpeg
         else if user_convert_params self = ''jpeg2000'' then preset_jpeg2000
         else user_convert_params self)
      in if params = '''' then preset_best else params)"

text \<open>
  \<^verbatim>\<open>rebuild_and_merge\<close>: build a PDF from the sorted page images with \<^verbatim>\<open>convert\<close>, then
  merge the overlay onto it.
\<close>

definition multibackground_py :: "pdf2pdfocr \<Rightarrow> string" where
  "multibackground_py self = script_dir self @ ''pdf2pdfocr_multibackground.py''"

definition input_unprotected_pdf :: "pdf2pdfocr \<Rightarrow> string" where
  "input_unprotected_pdf self = tmp_dir self @ prefix self @ ''-input_unprotected.pdf''"

definition metadata_wiped_warning :: message where
  "metadata_wiped_warning =
     Text (''Warning: metadata wiped from final PDF file (original file is not an unprotected PDF / ''
           @ ''forcing rebuild from extracted images / using deskew)'')"

definition rebuild_and_merge :: "pdf2pdfocr \<Rightarrow> os_env \<Rightarrow> world \<Rightarrow> result" where
  "rebuild_and_merge self os w =
     (let w1 = eprint metadata_wiped_warning w;
          w2 = log (Text ''Rebuilding PDF from images'') w1
      in case shlex_split os (convert_params self) of
           None \<Rightarrow> Inl (ValueError, w2)
         | Some convert_params_list \<Rightarrow>
             let w3 = popen os Rebuild_convert
                        ([path_convert self]
                         @ sort (glob (files w2) (tmp_dir self) (prefix self @ ''*.'' @ extension_images))
                         @ convert_params_list
                         @ [input_unprotected_pdf self])
                        None w2;
                 w4 = debug self (Text ''Merging with OCR'') w3
             in Inr (popen os Rebuild_merge
                      [path_this_python self, multibackground_py self,
                       input_unprotected_pdf self, ocr_pdf self, output_pdf self]
                      (Some (tmp_dir self @ ''err_multiback-'' @ prefix self @ ''-rebuild.log'')) w4))"

text \<open>
  \<^verbatim>\<open>try_repair_input_and_merge\<close>: PostScript round trip of the input, then the merge
  again on the repaired document. Starting a process whose program path is \<^verbatim>\<open>None\<close>
  raises \<^verbatim>\<open>TypeError\<close>, after the log file has been opened.
\<close>

definition fixPDF_ps :: "pdf2pdfocr \<Rightarrow> string" where
  "fixPDF_ps self = tmp_dir self @ prefix self @ ''-fixPDF.ps''"

definition fixPDF_pdf :: "pdf2pdfocr \<Rightarrow> string" where
  "fixPDF_pdf self = tmp_dir self @ prefix self @ ''-fixPDF.pdf''"

definition try_repair_input_and_merge :: "pdf2pdfocr \<Rightarrow> os_env \<Rightarrow> world \<Rightarrow> result" where
  "try_repair_input_and_merge self os w =
     (let w1 = debug self (Text (''Fail to merge source PDF with extracted OCR text. ''
                   @ ''Trying to fix source PDF to build final file...'')) w;
          log1 = tmp_dir self @ ''err_pdf2ps-'' @ prefix self @ ''.log'';
          log2 = tmp_dir self @ ''err_ps2pdf-'' @ prefix self @ ''.log''
      in case path_pdf2ps self of
           None \<Rightarrow> Inl (TypeError, w1\<lparr>files := AList.update log1 Data (files w1)\<rparr>)
         | Some pdf2ps \<Rightarrow>
             let w2 = popen os Repair_pdf2ps [pdf2ps, input_file self, fixPDF_ps self] (Some log1) w1
             in case path_ps2pdf self of
                  None \<Rightarrow> Inl (TypeError, w2\<lparr>files := AList.update log2 Data (files w2)\<rparr>)
                | Some ps2pdf \<Rightarrow>
                    let w3 = popen os Repair_ps2pdf [ps2pdf, fixPDF_ps self, fixPDF_pdf self]
                               (Some log2) w2
                    in Inr (popen os Repair_merge
                             [path_this_python self, multibackground_py self,
                              fixPDF_pdf self, ocr_pdf self, output_pdf self]
                             (Some (tmp_dir self @ ''err_multiback-'' @ prefix self @ ''-merge-fixed.log''))
                             w3))"

text \<open>
  \<^verbatim>\<open>build_final_output\<close>. \<open>rebuild_pdf_from_images\<close> is its local variable of that name;
  \<open>direct_merge\<close> is the branch that merges onto the original document and
  \<open>check_output\<close> the final test that the candidate exists.
\<close>

definition rebuild_pdf_from_images :: "pdf2pdfocr \<Rightarrow> bool" where
  "rebuild_pdf_from_images self =
     (if input_file_is_encrypted self \<or> input_file_type self \<noteq> ''application/pdf''
         \<or> use_deskew_mode self
      then True else False)"

definition merge_pdftk :: "pdf2pdfocr \<Rightarrow> os_env \<Rightarrow> world \<Rightarrow> world" where
  "merge_pdftk self os w =
     popen os Merge_pdftk
       [path_pdftk self, input_file self, ''multibackground'', ocr_pdf self, ''output'', output_pdf self]
       (Some (tmp_dir self @ ''err_multiback-'' @ prefix self @ ''-merge-pdftk.log''))
       (debug self (Text ''Merging with OCR with pdftk'') w)"

definition merge_script :: "pdf2pdfocr \<Rightarrow> os_env \<Rightarrow> world \<Rightarrow> world" where
  "merge_script self os w =
     popen os Merge
       [path_this_python self, multibackground_py self, input_file self, ocr_pdf self, output_pdf self]
       (Some (tmp_dir self @ ''err_multiback-'' @ prefix self @ ''-merge.log''))
       (debug self (Text ''Merging with OCR'') w)"

definition output_not_created :: message where
  "output_not_created = Text ''Output file could not be created :( Exiting with error code.''"

definition check_output :: "pdf2pdfocr \<Rightarrow> result \<Rightarrow> result" where
  "check_output self r =
     (case r of
        Inl e \<Rightarrow> Inl e
      | Inr w \<Rightarrow>
          if \<not> isfile (files w) (output_pdf self) then
            Inl (SystemExit 1,
                 cleanup self (eprint output_not_created w))
          else Inr w)"

definition direct_merge :: "pdf2pdfocr \<Rightarrow> os_env \<Rightarrow> world \<Rightarrow> result" where
  "direct_merge self os w =
     (if use_pdftk self then Inr (merge_pdftk self os w)
      else
        let w1 = merge_script self os w
        in if \<not> isfile (files w1) (output_pdf self)
           then try_repair_input_and_merge self os w1
           else Inr w1)"

definition build_final_output :: "pdf2pdfocr \<Rightarrow> os_env \<Rightarrow> world \<Rightarrow> result" where
  "build_final_output self os w =
     check_output self
       (if (\<not> rebuild_pdf_from_images self) \<and> (\<not> force_rebuild_mode self)
        then direct_merge self os w
        else rebuild_and_merge self os w)"

section \<open>The finalizer\<close>

text \<open>
  \<open>py_add_str v t\<close> is the Python expression \<^verbatim>\<open>v + t\<close> for a string \<open>t\<close>: defined on
  text strings only, \<^verbatim>\<open>TypeError\<close> otherwise. \<open>createStringObject\<close> says whether the PDF
  library's function of that name accepts the value (text and byte strings) or raises
  \<^verbatim>\<open>TypeError\<close>.
\<close>

definition our_name :: string where
  "our_name = ''PDF2PDFOCR(github.com/LeoFCardoso/pdf2pdfocr)''"

definition producer_key :: string where
  "producer_key = ''/Producer''"

fun py_add_str :: "py_value \<Rightarrow> string \<Rightarrow> py_value option" where
  "py_add_str (Str s) t = Some (Str (s @ t))"
| "py_add_str (ByteString b) t = None"
| "py_add_str (ArrayObject a) t = None"

fun createStringObject :: "py_value \<Rightarrow> bool" where
  "createStringObject (Str s) = True"
| "createStringObject (ByteString b) = True"
| "createStringObject (ArrayObject a) = False"

text \<open>
  The loop over the keys of the source metadata. The signature is appended to the
  producer before the \<^verbatim>\<open>try\<close> block; the \<^verbatim>\<open>except TypeError\<close> covers only
  \<open>createStringObject\<close>.
\<close>

definition warning_not_copied :: "string \<Rightarrow> message" where
  "warning_not_copied key = Text (''Warning: property '' @ key @ '' not copied to final PDF'')"

fun copy_metadata :: "info \<Rightarrow> string list \<Rightarrow> info \<Rightarrow> bool \<Rightarrow> world
    \<Rightarrow> (failure \<times> world) + (info \<times> bool \<times> world)" where
  "copy_metadata md [] info_dict_output read_producer w = Inr (info_dict_output, read_producer, w)"
| "copy_metadata md (key # keys) info_dict_output read_producer w =
     (case map_of md key of
        None \<Rightarrow> Inl (KeyError, w)
      | Some v \<Rightarrow>
          (case (if key = producer_key
                 then map_option (\<lambda>v'. (v', True)) (py_add_str v (''; '' @ our_name))
                 else Some (v, read_producer)) of
             None \<Rightarrow> Inl (TypeError, w)
           | Some (value, read_producer') \<Rightarrow>
               if createStringObject value
               then copy_metadata md keys (AList.update key value info_dict_output) read_producer' w
               else copy_metadata md keys info_dict_output read_producer'
                      (eprint (warning_not_copied key) w)))"

text \<open>
  \<^verbatim>\<open>edit_producer\<close>: copy the pages of the candidate, build the information dictionary,
  write the final output file.
\<close>

definition edit_producer :: "pdf2pdfocr \<Rightarrow> world \<Rightarrow> result" where
  "edit_producer self w =
     (let w1 = debug self (Text ''Editing producer'') w
      in case map_of (files w1) (output_pdf self) of
           None \<Rightarrow> Inl (FileNotFoundError, w1)
         | Some Data \<Rightarrow> Inl (PdfReadError, w1)
         | Some (Pdf pages i) \<Rightarrow>
             (case (case input_file_metadata self of
                      None \<Rightarrow> Inr ([], False, w1)
                    | Some md \<Rightarrow> copy_metadata md (remdups (map fst md)) [] False w1) of
                Inl e \<Rightarrow> Inl e
              | Inr (info_dict_output, read_producer, w2) \<Rightarrow>
                  let info_dict_output' =
                        (if \<not> read_producer
                         then AList.update producer_key (Str our_name) info_dict_output
                         else info_dict_output)
                  in Inr (w2\<lparr>files := AList.update (output_file self) (Pdf pages info_dict_output')
                                        (files w2)\<rparr>)))"

text \<open>
  The last stages of \<^verbatim>\<open>ocr\<close>: \<^verbatim>\<open>build_final_output\<close>, \<^verbatim>\<open>edit_producer\<close>, \<^verbatim>\<open>cleanup\<close>.
  A failure ends the run at once.
\<close>

definition ocr_final_stages :: "pdf2pdfocr \<Rightarrow> os_env \<Rightarrow> world \<Rightarrow> result" where
  "ocr_final_stages self os w =
     (case build_final_output self os w of
        Inl e \<Rightarrow> Inl e
      | Inr w1 \<Rightarrow>
          (case edit_producer self w1 of
             Inl e \<Rightarrow> Inl e
           | Inr w2 \<Rightarrow> Inr (cleanup self (debug self (Text ''Output file created'') w2))))"

text \<open>
  The exit status of the process: the argument of \<^verbatim>\<open>exit\<close>, and 1 for an exception that
  nothing catches.
\<close>

definition exit_status :: "failure \<Rightarrow> int" where
  "exit_status e = (case e of SystemExit n \<Rightarrow> n | _ \<Rightarrow> 1)"

text \<open>Auxiliary functions for stating results.\<close>

definition world_of :: "result \<Rightarrow> world" where
  "world_of r = (case r of Inl (e, w) \<Rightarrow> w | Inr w \<Rightarrow> w)"

definition pages_of :: "file_content \<Rightarrow> page list" where
  "pages_of c = (case c of Pdf pages i \<Rightarrow> pages | Data \<Rightarrow> [])"

definition is_pdf :: "file_content option \<Rightarrow> bool" where
  "is_pdf c = (case c of Some (Pdf pages i) \<Rightarrow> True | _ \<Rightarrow> False)"

text \<open>
  The name \<^verbatim>\<open>do_ocr\<close> gives to the overlay of a page image (the image's base name
  without its extension, with \<^verbatim>\<open>.pdf\<close>, in the temporary directory), the sorted list of
  page images of \<^verbatim>\<open>ocr\<close>, and the overlays that are expected from it but absent.
\<close>

definition basename :: "string \<Rightarrow> string" where
  "basename p = rev (takeWhile (\<lambda>c. c \<noteq> CHR ''/'') (rev p))"

definition splitext_root :: "string \<Rightarrow> string" where
  "splitext_root n =
     (let dotIndex = length n - length (takeWhile (\<lambda>c. c \<noteq> CHR ''.'') (rev n)) - 1
      in if CHR ''.'' \<in> set n \<and> list_ex (\<lambda>c. c \<noteq> CHR ''.'') (take dotIndex n)
         then take dotIndex n else n)"

definition overlay_of_image :: "string \<Rightarrow> string \<Rightarrow> string" where
  "overlay_of_image param_temp_dir param_image_file =
     param_temp_dir @ splitext_root (basename param_image_file) @ ''.pdf''"

definition image_file_list :: "pdf2pdfocr \<Rightarrow> world \<Rightarrow> string list" where
  "image_file_list self w =
     sort (glob (files w) (tmp_dir self) (prefix self @ ''*.'' @ extension_images))"

definition missing_overlays :: "pdf2pdfocr \<Rightarrow> world \<Rightarrow> string list" where
  "missing_overlays self w =
     filter (\<lambda>f. \<not> isfile (files w) f)
       (map (overlay_of_image (tmp_dir self)) (image_file_list self w))"

section \<open>Concrete runs\<close>

text \<open>
  A concrete instance of the program object: an unencrypted PDF input, no deskew, no forced
  rebuild, the bundled merge script, Ghostscript installed, verbose mode on.
\<close>

definition self_ex :: pdf2pdfocr where
  "self_ex = \<lparr>tmp_dir = ''/tmp/'', prefix = ''pfx'', input_file = ''/home/u/scan.pdf'',
     input_file_type = ''application/pdf'', input_file_is_encrypted = False,
     input_file_metadata = Some [], use_deskew_mode = False, force_rebuild_mode = False,
     use_pdftk = False, user_convert_params = '''', delete_temps = True, verbose_mode = True,
     output_file = ''/home/u/scan-OCR.pdf'', path_pdftk = '''', path_convert = ''/usr/bin/convert'',
     path_pdf2ps = Some ''/usr/bin/pdf2ps'', path_ps2pdf = Some ''/usr/bin/ps2pdf'',
     path_this_python = ''/usr/bin/python3'', script_dir = ''/opt/pdf2pdfocr/''\<rparr>"

text \<open>
  A temporary directory after OCR of three pages, the overlays listed out of order.
\<close>

definition w_three :: world where
  "w_three = \<lparr>files = [(''/tmp/pfx-003.pdf'', Pdf [''page 3''] []),
                       (''/tmp/pfx-001.jpg'', Data),
                       (''/tmp/pfx-001.pdf'', Pdf [''page 1''] []),
                       (''/tmp/pfx-003.jpg'', Data),
                       (''/tmp/pfx-002.jpg'', Data),
                       (''/tmp/pfx-002.pdf'', Pdf [''page 2''] [])],
               stdout = [], stderr = [], calls = []\<rparr>"

text \<open>The same directory when OCR of page 2 failed: no overlay for \<open>pfx-002.jpg\<close>.\<close>

definition w_hole :: world where
  "w_hole = \<lparr>files = [(''/tmp/pfx-003.pdf'', Pdf [''page 3''] []),
                      (''/tmp/pfx-001.jpg'', Data),
                      (''/tmp/pfx-001.pdf'', Pdf [''page 1''] []),
                      (''/tmp/pfx-003.jpg'', Data),
                      (''/tmp/pfx-002.jpg'', Data)],
              stdout = [], stderr = [], calls = []\<rparr>"

text \<open>
  The same run when, in addition, the overlay written for page 3 is not a readable
  document.
\<close>

definition w_damaged :: world where
  "w_damaged = \<lparr>files = [(''/tmp/pfx-003.pdf'', Data),
                         (''/tmp/pfx-001.jpg'', Data),
                         (''/tmp/pfx-001.pdf'', Pdf [''page 1''] []),
                         (''/tmp/pfx-003.jpg'', Data),
                         (''/tmp/pfx-002.jpg'', Data)],
                 stdout = [], stderr = [], calls = []\<rparr>"

text \<open>A single-page run, and a run in which every OCR job failed.\<close>

definition w_one :: world where
  "w_one = \<lparr>files = [(''/tmp/pfx-1.jpg'', Data), (''/tmp/pfx-1.pdf'', Pdf [''page 1''] [])],
             stdout = [], stderr = [], calls = []\<rparr>"

definition w_none :: world where
  "w_none = \<lparr>files = [(''/tmp/pfx-1.jpg'', Data), (''/tmp/pfx-2.jpg'', Data)],
              stdout = [], stderr = [], calls = []\<rparr>"

text \<open>The state before the final merge: input, page image, assembled overlay.\<close>

definition w_merge :: world where
  "w_merge = \<lparr>files = [(''/home/u/scan.pdf'', Pdf [''scan 1''] [(''/Producer'', Str ''Scanner'')]),
                       (''/tmp/pfx-1.jpg'', Data),
                       (''/tmp/pfx-ocr.pdf'', Pdf [''text 1''] [])],
               stdout = [], stderr = [], calls = []\<rparr>"

text \<open>
  Splitting at blanks: what \<open>shlex.split\<close> returns on a string without quotes, escapes
  or other white space. Used for concrete runs only.
\<close>

fun split_blanks :: "string \<Rightarrow> string \<Rightarrow> string list" where
  "split_blanks cur [] = (if cur = [] then [] else [cur])"
| "split_blanks cur (c # cs) =
     (if c = CHR '' '' then (if cur = [] then [] else [cur]) @ split_blanks [] cs
      else split_blanks (cur @ [c]) cs)"

text \<open>An environment in which every external tool fails without writing anything.\<close>

definition os_failing :: os_env where
  "os_failing = \<lparr>run = (\<lambda>argv fs. fs), shlex_split = (\<lambda>s. Some (split_blanks [] s))\<rparr>"

text \<open>
  An environment in which every external tool writes a one-page document to the path given
  as its last argument.
\<close>

definition os_working :: os_env where
  "os_working = \<lparr>run = (\<lambda>argv fs. AList.update (last argv) (Pdf [''merged 1''] []) fs),
                   shlex_split = (\<lambda>s. Some (split_blanks [] s))\<rparr>"

text \<open>The same program object with pdftk selected for the merge (option \<open>-p\<close>).\<close>

definition self_pdftk :: pdf2pdfocr where
  "self_pdftk = self_ex\<lparr>use_pdftk := True, path_pdftk := ''/usr/bin/pdftk''\<rparr>"

text \<open>
  The state before finalization: the merged candidate exists. Three program objects differ
  in the metadata read from the input: a text producer next to an array-valued title, an
  array-valued producer, and no producer at all.
\<close>

definition w_candidate :: world where
  "w_candidate = \<lparr>files = [(''/tmp/pfx-OUTPUT.pdf'', Pdf [''merged 1'', ''merged 2''] [])],
                   stdout = [], stderr = [], calls = []\<rparr>"

definition self_text_producer :: pdf2pdfocr where
  "self_text_producer = self_ex\<lparr>input_file_metadata :=
     Some [(''/Producer'', Str ''Scanner''), (''/Title'', ArrayObject [Str ''a'', Str ''b'']),
           (''/Author'', Str ''A. Writer'')]\<rparr>"

definition self_array_producer :: pdf2pdfocr where
  "self_array_producer = self_ex\<lparr>input_file_metadata :=
     Some [(''/Producer'', ArrayObject [Str ''Scanner'']), (''/Author'', Str ''A. Writer'')]\<rparr>"

definition self_no_producer :: pdf2pdfocr where
  "self_no_producer = self_ex\<lparr>input_file_metadata := Some [(''/Author'', Str ''A. Writer'')]\<rparr>"

text \<open>The program object when Ghostscript is not installed.\<close>

definition self_no_gs :: pdf2pdfocr where
  "self_no_gs = self_ex\<lparr>path_pdf2ps := None, path_ps2pdf := None\<rparr>"

section \<open>Properties of true division\<close>










section \<open>Properties of the partitioner\<close>












section \<open>Messages and external calls\<close>

lemma files_log_eprint [simp]:
  "files (log m w) = files w" "files (eprint m w) = files w" "files (debug self m w) = files w"
  by (simp_all add: log_def eprint_def debug_def)

lemma calls_log_eprint [simp]:
  "calls (log m w) = calls w" "calls (eprint m w) = calls w" "calls (debug self m w) = calls w"
  by (simp_all add: log_def eprint_def debug_def)

lemma stderr_log_debug [simp]:
  "stderr (log m w) = stderr w" "stderr (debug self m w) = stderr w"
  "stderr (eprint m w) = stderr w @ [m]"
  by (simp_all add: log_def eprint_def debug_def)

lemma popen_simps [simp]:
  "calls (popen os site argv errlog w) = calls w @ [(site, argv)]"
  "stderr (popen os site argv errlog w) = stderr w"
  "stdout (popen os site argv errlog w) = stdout w"
  by (simp_all add: popen_def Let_def)

lemma stderr_cleanup:
  "stderr (cleanup self w) =
     (if delete_temps self then stderr w
      else stderr w @ [Text (''Temporary files kept in '' @ tmp_dir self)])"
  by (simp add: cleanup_def)


section \<open>Properties of the rebuild presets\<close>

lemma convert_params_presets:
  "user_convert_params self = ''fast'' \<Longrightarrow> convert_params self = preset_fast"
  "user_convert_params self = ''best'' \<Longrightarrow> convert_params self = preset_best"
  "user_convert_params self = ''jpeg'' \<Longrightarrow> convert_params self = preset_jpeg"
  "user_convert_params self = ''jpeg2000'' \<Longrightarrow> convert_params self = preset_jpeg2000"
  by (simp_all add: convert_params_def preset_fast_def preset_best_def preset_jpeg_def
      preset_jpeg2000_def)

lemma convert_params_literal:
  assumes "user_convert_params self \<notin> {'''', ''fast'', ''best'', ''grasyscale'', ''jpeg'', ''jpeg2000''}"
  shows "convert_params self = user_convert_params self"
  using assms by (simp add: convert_params_def)

lemma rebuild_and_merge_calls:
  assumes "shlex_split os (convert_params self) = Some l"
  shows "\<exists>w'. rebuild_and_merge self os w = Inr w' \<and>
           calls w' = calls w @
             [(Rebuild_convert,
               [path_convert self]
               @ sort (glob (files w) (tmp_dir self) (prefix self @ ''*.'' @ extension_images))
               @ l @ [input_unprotected_pdf self]),
              (Rebuild_merge,
               [path_this_python self, multibackground_py self, input_unprotected_pdf self,
                ocr_pdf self, output_pdf self])]"
  using assms by (simp add: rebuild_and_merge_def Let_def)

text \<open>
  Claim C10. When the selector is the empty string (no \<open>-g\<close> given), the parameters
  chosen are the bitonal best-quality preset
  \<open>-colors 2 -colorspace gray -normalize -threshold 60% -compress Group4\<close>, and the
  rebuild calls \<open>convert\<close> with the sorted page images, the split preset and the name of
  the rebuilt document.
\<close>

theorem default_preset_is_best:
  "user_convert_params self = '''' \<longrightarrow>
     convert_params self = ''-colors 2 -colorspace gray -normalize -threshold 60% -compress Group4'' \<and>
     convert_params self = preset_best \<and>
     (\<forall>l. shlex_split os preset_best = Some l \<longrightarrow>
        (\<exists>w'. rebuild_and_merge self os w = Inr w' \<and>
           hd (drop (length (calls w)) (calls w')) =
             (Rebuild_convert,
              [path_convert self]
              @ sort (glob (files w) (tmp_dir self) (prefix self @ ''*.'' @ extension_images))
              @ l @ [input_unprotected_pdf self])))"
proof (intro impI conjI allI)
  assume e: "user_convert_params self = ''''"
  then show b: "convert_params self = preset_best"
    by (simp add: convert_params_def)
  then show "convert_params self = ''-colors 2 -colorspace gray -normalize -threshold 60% -compress Group4''"
    by (simp add: preset_best_def)
  fix l
  assume "shlex_split os preset_best = Some l"
  then have "shlex_split os (convert_params self) = Some l" using b by simp
  from rebuild_and_merge_calls[OF this, of w]
  show "\<exists>w'. rebuild_and_merge self os w = Inr w' \<and>
           hd (drop (length (calls w)) (calls w')) =
             (Rebuild_convert,
              [path_convert self]
              @ sort (glob (files w) (tmp_dir self) (prefix self @ ''*.'' @ extension_images))
              @ l @ [input_unprotected_pdf self])"
    by auto
qed

lemma split_best:
  "shlex_split os_failing preset_best =
     Some [''-colors'', ''2'', ''-colorspace'', ''gray'', ''-normalize'', ''-threshold'', ''60%'',
           ''-compress'', ''Group4'']"
  by (simp add: os_failing_def preset_best_def)

lemma glob_jpg_w_merge:
  "sort (glob (files w_merge) ''/tmp/'' (''pfx'' @ ''*.'' @ extension_images)) = [''/tmp/pfx-1.jpg'']"
  by (simp add: w_merge_def glob_def listdir_def ishidden_def extension_images_def)

theorem default_preset_is_best_witness:
  "user_convert_params self_ex = '''' \<and>
   convert_params self_ex = preset_best \<and>
   hd (calls (world_of (rebuild_and_merge self_ex os_failing w_merge))) =
     (Rebuild_convert,
      [''/usr/bin/convert'', ''/tmp/pfx-1.jpg'',
       ''-colors'', ''2'', ''-colorspace'', ''gray'', ''-normalize'', ''-threshold'', ''60%'',
       ''-compress'', ''Group4'', ''/tmp/pfx-input_unprotected.pdf''])"
proof -
  have e: "user_convert_params self_ex = ''''" by (simp add: self_ex_def)
  have c: "calls w_merge = []" by (simp add: w_merge_def)
  have s: "tmp_dir self_ex = ''/tmp/''" "prefix self_ex = ''pfx''"
    "path_convert self_ex = ''/usr/bin/convert''"
    by (simp_all add: self_ex_def)
  from default_preset_is_best[of self_ex os_failing w_merge] e split_best
  obtain w' where w': "rebuild_and_merge self_ex os_failing w_merge = Inr w'"
    and h: "hd (drop (length (calls w_merge)) (calls w')) =
             (Rebuild_convert,
              [path_convert self_ex]
              @ sort (glob (files w_merge) (tmp_dir self_ex) (prefix self_ex @ ''*.'' @ extension_images))
              @ [''-colors'', ''2'', ''-colorspace'', ''gray'', ''-normalize'', ''-threshold'', ''60%'',
                 ''-compress'', ''Group4'']
              @ [input_unprotected_pdf self_ex])"
    and b: "convert_params self_ex = preset_best"
    by blast
  have "hd (calls w') =
     (Rebuild_convert,
      [''/usr/bin/convert'', ''/tmp/pfx-1.jpg'',
       ''-colors'', ''2'', ''-colorspace'', ''gray'', ''-normalize'', ''-threshold'', ''60%'',
       ''-compress'', ''Group4'', ''/tmp/pfx-input_unprotected.pdf''])"
    using h by (simp add: c s glob_jpg_w_merge[simplified] input_unprotected_pdf_def)
  then show ?thesis using e b w' by (simp add: world_of_def)
qed

text \<open>
  Claim C8, evaluated at the selector \<open>grayscale\<close>. The comparison in
  \<open>rebuild_and_merge\<close> is against the misspelt token \<open>grasyscale\<close>, so the documented
  selector \<open>grayscale\<close> is not recognised: it is passed on as a literal parameter string,
  and \<open>convert\<close> receives the single argument \<open>grayscale\<close> instead of the
  grayscale-dilate preset. Only the misspelt token selects that preset.
\<close>

theorem grayscale_selector_passed_literally:
  "convert_params (self_ex\<lparr>user_convert_params := ''grayscale''\<rparr>) = ''grayscale'' \<and>
   preset_grayscale = ''-threshold 85% -morphology Dilate Diamond -compress Group4'' \<and>
   convert_params (self_ex\<lparr>user_convert_params := ''grayscale''\<rparr>) \<noteq> preset_grayscale \<and>
   convert_params (self_ex\<lparr>user_convert_params := ''grasyscale''\<rparr>) = preset_grayscale \<and>
   hd (calls (world_of (rebuild_and_merge (self_ex\<lparr>user_convert_params := ''grayscale''\<rparr>)
                          os_failing w_merge))) =
     (Rebuild_convert,
      [''/usr/bin/convert'', ''/tmp/pfx-1.jpg'', ''grayscale'', ''/tmp/pfx-input_unprotected.pdf''])"
proof -
  have a: "convert_params (self_ex\<lparr>user_convert_params := ''grayscale''\<rparr>) = ''grayscale''"
    by (simp add: convert_params_def)
  have b: "convert_params (self_ex\<lparr>user_convert_params := ''grasyscale''\<rparr>) = preset_grayscale"
    by (simp add: convert_params_def preset_grayscale_def)
  have c: "shlex_split os_failing ''grayscale'' = Some [''grayscale'']"
    by (simp add: os_failing_def)
  have d: "hd (calls (world_of (rebuild_and_merge (self_ex\<lparr>user_convert_params := ''grayscale''\<rparr>)
                          os_failing w_merge))) =
     (Rebuild_convert,
      [''/usr/bin/convert'', ''/tmp/pfx-1.jpg'', ''grayscale'', ''/tmp/pfx-input_unprotected.pdf''])"
    using glob_jpg_w_merge
    by (simp add: rebuild_and_merge_def a c Let_def world_of_def input_unprotected_pdf_def)
       (simp add: self_ex_def w_merge_def)
  show ?thesis using a b d by (simp add: preset_grayscale_def)
qed

section \<open>Properties of the final merge\<close>

lemma warning_not_other:
  "metadata_wiped_warning \<noteq> Text (''Temporary files kept in '' @ d)"
  "metadata_wiped_warning \<noteq> output_not_created"
  by (simp_all add: metadata_wiped_warning_def output_not_created_def)

lemma stderr_try_repair:
  "stderr (world_of (try_repair_input_and_merge self os w)) = stderr w"
  by (simp add: try_repair_input_and_merge_def world_of_def Let_def split: option.splits)

lemma stderr_direct_merge:
  "stderr (world_of (direct_merge self os w)) = stderr w"
proof (cases "use_pdftk self")
  case True
  then show ?thesis by (simp add: direct_merge_def merge_pdftk_def world_of_def)
next
  case False
  have m: "stderr (merge_script self os w) = stderr w" by (simp add: merge_script_def)
  show ?thesis
  proof (cases "isfile (files (merge_script self os w)) (output_pdf self)")
    case True
    with False show ?thesis by (simp add: direct_merge_def Let_def world_of_def m)
  next
    case no: False
    with False have "direct_merge self os w =
        try_repair_input_and_merge self os (merge_script self os w)"
      by (simp add: direct_merge_def Let_def)
    then show ?thesis by (simp add: stderr_try_repair m)
  qed
qed

lemma stderr_rebuild_and_merge:
  "stderr (world_of (rebuild_and_merge self os w)) = stderr w @ [metadata_wiped_warning]"
  by (simp add: rebuild_and_merge_def world_of_def Let_def split: option.splits)

lemma warning_check_output:
  "(metadata_wiped_warning \<in> set (stderr (world_of (check_output self r)))) =
   (metadata_wiped_warning \<in> set (stderr (world_of r)))"
proof (cases r)
  case (Inl x)
  then show ?thesis by (simp add: check_output_def)
next
  case (Inr w)
  then show ?thesis
    using warning_not_other
    by (simp add: check_output_def world_of_def stderr_cleanup)
qed

lemma rebuild_iff:
  "rebuild_pdf_from_images self =
     (input_file_is_encrypted self \<or> input_file_type self \<noteq> ''application/pdf''
      \<or> use_deskew_mode self)"
  by (simp add: rebuild_pdf_from_images_def)

text \<open>
  Claim C5. \<open>build_final_output\<close> takes the rebuild path (\<open>rebuild_and_merge\<close>)
  exactly when the input is encrypted, or its mime type is not \<open>application/pdf\<close>, or
  deskew mode is on, or the force-rebuild flag is set, and the direct merge otherwise. The
  two paths are told apart by the warning about wiped metadata, which the rebuild path always
  prints and the direct path never does. For an encrypted input the variable
  \<open>rebuild_pdf_from_images\<close> is true and the rebuild path is taken, whatever the deskew
  and force-rebuild settings.
\<close>

theorem rebuild_decision:
  "build_final_output self os w =
     check_output self
       (if input_file_is_encrypted self \<or> input_file_type self \<noteq> ''application/pdf''
           \<or> use_deskew_mode self \<or> force_rebuild_mode self
        then rebuild_and_merge self os w else direct_merge self os w) \<and>
   (metadata_wiped_warning \<notin> set (stderr w) \<longrightarrow>
      (metadata_wiped_warning \<in> set (stderr (world_of (build_final_output self os w)))) =
        (input_file_is_encrypted self \<or> input_file_type self \<noteq> ''application/pdf''
         \<or> use_deskew_mode self \<or> force_rebuild_mode self)) \<and>
   (input_file_is_encrypted self \<longrightarrow>
      rebuild_pdf_from_images self \<and>
      build_final_output self os w = check_output self (rebuild_and_merge self os w))"
proof (intro conjI impI)
  show eq: "build_final_output self os w =
     check_output self
       (if input_file_is_encrypted self \<or> input_file_type self \<noteq> ''application/pdf''
           \<or> use_deskew_mode self \<or> force_rebuild_mode self
        then rebuild_and_merge self os w else direct_merge self os w)"
    by (auto simp: build_final_output_def rebuild_iff)
  {
    assume fresh: "metadata_wiped_warning \<notin> set (stderr w)"
    show "(metadata_wiped_warning \<in> set (stderr (world_of (build_final_output self os w)))) =
        (input_file_is_encrypted self \<or> input_file_type self \<noteq> ''application/pdf''
         \<or> use_deskew_mode self \<or> force_rebuild_mode self)"
      using fresh
      by (simp only: eq warning_check_output)
         (simp add: stderr_rebuild_and_merge stderr_direct_merge)
  }
  {
    assume enc: "input_file_is_encrypted self"
    then show "rebuild_pdf_from_images self" by (simp add: rebuild_iff)
    from enc show "build_final_output self os w = check_output self (rebuild_and_merge self os w)"
      by (simp add: eq)
  }
qed

lemma stderr_build_encrypted:
  "stderr (world_of (build_final_output (self_ex\<lparr>input_file_is_encrypted := True\<rparr>) os_working w_merge)) =
     [metadata_wiped_warning]"
  by code_simp

theorem rebuild_decision_witness:
  "metadata_wiped_warning \<notin> set (stderr w_merge) \<and>
   input_file_is_encrypted (self_ex\<lparr>input_file_is_encrypted := True\<rparr>) \<and>
   \<not> use_deskew_mode (self_ex\<lparr>input_file_is_encrypted := True\<rparr>) \<and>
   \<not> force_rebuild_mode (self_ex\<lparr>input_file_is_encrypted := True\<rparr>) \<and>
   rebuild_pdf_from_images (self_ex\<lparr>input_file_is_encrypted := True\<rparr>) \<and>
   build_final_output (self_ex\<lparr>input_file_is_encrypted := True\<rparr>) os_working w_merge =
     check_output (self_ex\<lparr>input_file_is_encrypted := True\<rparr>)
       (rebuild_and_merge (self_ex\<lparr>input_file_is_encrypted := True\<rparr>) os_working w_merge) \<and>
   stderr (world_of (build_final_output (self_ex\<lparr>input_file_is_encrypted := True\<rparr>) os_working w_merge)) =
     [metadata_wiped_warning] \<and>
   \<not> input_file_is_encrypted self_ex \<and> input_file_type self_ex = ''application/pdf'' \<and>
   \<not> use_deskew_mode self_ex \<and> \<not> force_rebuild_mode self_ex \<and>
   metadata_wiped_warning \<notin> set (stderr (world_of (build_final_output self_ex os_working w_merge)))"
proof -
  have f: "metadata_wiped_warning \<notin> set (stderr w_merge)" by (simp add: w_merge_def)
  have e: "input_file_is_encrypted (self_ex\<lparr>input_file_is_encrypted := True\<rparr>)" by simp
  have p: "\<not> input_file_is_encrypted self_ex" "input_file_type self_ex = ''application/pdf''"
    "\<not> use_deskew_mode self_ex" "\<not> force_rebuild_mode self_ex"
    by (simp_all add: self_ex_def)
  note a = rebuild_decision[of "self_ex\<lparr>input_file_is_encrypted := True\<rparr>" os_working w_merge]
  note b = rebuild_decision[of self_ex os_working w_merge]
  from a e have a1: "rebuild_pdf_from_images (self_ex\<lparr>input_file_is_encrypted := True\<rparr>)"
    and a2: "build_final_output (self_ex\<lparr>input_file_is_encrypted := True\<rparr>) os_working w_merge =
     check_output (self_ex\<lparr>input_file_is_encrypted := True\<rparr>)
       (rebuild_and_merge (self_ex\<lparr>input_file_is_encrypted := True\<rparr>) os_working w_merge)"
    by blast+
  from b f p have b1:
    "metadata_wiped_warning \<notin> set (stderr (world_of (build_final_output self_ex os_working w_merge)))"
    by blast
  have q: "\<not> use_deskew_mode (self_ex\<lparr>input_file_is_encrypted := True\<rparr>)"
    "\<not> force_rebuild_mode (self_ex\<lparr>input_file_is_encrypted := True\<rparr>)"
    by (simp_all add: self_ex_def)
  show ?thesis
    using f e p q a1 a2 b1 stderr_build_encrypted by blast
qed

lemma ocr_final_stages_failed:
  "build_final_output self os w = Inl x \<Longrightarrow> ocr_final_stages self os w = Inl x"
  by (simp add: ocr_final_stages_def)

lemma calls_cleanup: "calls (cleanup self w) = calls w"
  by (simp add: cleanup_def)

lemma map_of_filter_keys:
  "map_of (filter (\<lambda>e. fst e \<notin> S) fs) p = (if p \<in> S then None else map_of fs p)"
  by (induction fs) auto

lemma files_cleanup:
  "map_of (files (cleanup self w)) p = None \<or> map_of (files (cleanup self w)) p = map_of (files w) p"
  by (simp add: cleanup_def map_of_filter_keys)

lemma try_repair_calls:
  assumes "path_pdf2ps self = Some pdf2ps" and "path_ps2pdf self = Some ps2pdf"
  shows "\<exists>w'. try_repair_input_and_merge self os w = Inr w' \<and>
           calls w' = calls w @
             [(Repair_pdf2ps, [pdf2ps, input_file self, fixPDF_ps self]),
              (Repair_ps2pdf, [ps2pdf, fixPDF_ps self, fixPDF_pdf self]),
              (Repair_merge, [path_this_python self, multibackground_py self, fixPDF_pdf self,
                 ocr_pdf self, output_pdf self])]"
  using assms by (simp add: try_repair_input_and_merge_def Let_def)

lemma try_repair_without_ghostscript:
  assumes "path_pdf2ps self = None \<or> path_ps2pdf self = None"
  shows "\<exists>w'. try_repair_input_and_merge self os w = Inl (TypeError, w') \<and>
           calls w' = calls w @
             (case path_pdf2ps self of None \<Rightarrow> []
              | Some pdf2ps \<Rightarrow> [(Repair_pdf2ps, [pdf2ps, input_file self, fixPDF_ps self])])"
proof (cases "path_pdf2ps self")
  case None
  then show ?thesis by (simp add: try_repair_input_and_merge_def Let_def)
next
  case (Some a)
  with assms have "path_ps2pdf self = None" by simp
  with Some show ?thesis by (simp add: try_repair_input_and_merge_def Let_def)
qed

text \<open>
  Claim C4, as amended. On the direct-merge path (the input is an unencrypted PDF, deskew
  mode and the force-rebuild flag are off) with the bundled merge script (pdftk not
  selected), let the merge of the input with the overlay leave the candidate
  \<open>-OUTPUT.pdf\<close> absent. Then \<open>build_final_output\<close> is the final check applied
  to one run of \<open>try_repair_input_and_merge\<close> on the state the merge left.

  \<^item> With \<open>pdf2ps\<close> and \<open>ps2pdf\<close> installed the repair returns, and the external calls
    made since the start of the step are exactly four: the merge of the input file,
    \<open>pdf2ps\<close> from the input file to \<open>-fixPDF.ps\<close>, \<open>ps2pdf\<close> from \<open>-fixPDF.ps\<close> to
    \<open>-fixPDF.pdf\<close>, and the same merge with \<open>-fixPDF.pdf\<close> in place of the input file.
    When the candidate is still absent, \<open>build_final_output\<close> ends with
    \<open>SystemExit 1\<close> in the state the check leaves (message, then \<open>cleanup\<close>), and that is
    the result of the whole final stage: \<open>edit_producer\<close>, the step that writes the final
    output path, has not run, no further external call was made, and every path is either
    absent or holds what it held when the retried merge ended.
  \<^item> Without \<open>pdf2ps\<close> or \<open>ps2pdf\<close> the repair raises \<open>TypeError\<close>, and the failure the
    repair raised, with the state it raised it in, is the result of \<open>build_final_output\<close>
    and of the whole final stage; the external calls up to then are the merge and, when
    only \<open>ps2pdf\<close> is missing, \<open>pdf2ps\<close>.

  With pdftk selected a merge that leaves the candidate absent is not repaired: the single
  external call is the pdftk merge, \<open>build_final_output\<close> ends with \<open>SystemExit 1\<close> in
  the state the check leaves, and that is the result of the whole final stage. The exit
  status of the process is 1 for \<open>SystemExit 1\<close> and for an uncaught \<open>TypeError\<close>.
\<close>

theorem merge_fallback_chain:
  assumes "\<not> rebuild_pdf_from_images self" and "\<not> force_rebuild_mode self"
  shows
  "(\<not> use_pdftk self \<and> \<not> isfile (files (merge_script self os w)) (output_pdf self) \<longrightarrow>
      build_final_output self os w =
        check_output self (try_repair_input_and_merge self os (merge_script self os w)) \<and>
      (\<forall>pdf2ps ps2pdf. path_pdf2ps self = Some pdf2ps \<and> path_ps2pdf self = Some ps2pdf \<longrightarrow>
         (\<exists>w_r. try_repair_input_and_merge self os (merge_script self os w) = Inr w_r \<and>
            calls w_r = calls w @
              [(Merge, [path_this_python self, multibackground_py self, input_file self,
                  ocr_pdf self, output_pdf self]),
               (Repair_pdf2ps, [pdf2ps, input_file self, fixPDF_ps self]),
               (Repair_ps2pdf, [ps2pdf, fixPDF_ps self, fixPDF_pdf self]),
               (Repair_merge, [path_this_python self, multibackground_py self, fixPDF_pdf self,
                  ocr_pdf self, output_pdf self])] \<and>
            (\<not> isfile (files w_r) (output_pdf self) \<longrightarrow>
               build_final_output self os w =
                 Inl (SystemExit 1, cleanup self (eprint output_not_created w_r)) \<and>
               ocr_final_stages self os w = build_final_output self os w \<and>
               calls (world_of (ocr_final_stages self os w)) = calls w_r \<and>
               (\<forall>p. map_of (files (world_of (ocr_final_stages self os w))) p = None \<or>
                    map_of (files (world_of (ocr_final_stages self os w))) p =
                      map_of (files w_r) p)))) \<and>
      (path_pdf2ps self = None \<or> path_ps2pdf self = None \<longrightarrow>
         (\<exists>w'. try_repair_input_and_merge self os (merge_script self os w) = Inl (TypeError, w') \<and>
               build_final_output self os w = Inl (TypeError, w') \<and>
               ocr_final_stages self os w = build_final_output self os w \<and>
               calls w' = calls w @
                 (Merge, [path_this_python self, multibackground_py self, input_file self,
                    ocr_pdf self, output_pdf self]) #
                 (case path_pdf2ps self of None \<Rightarrow> []
                  | Some pdf2ps \<Rightarrow> [(Repair_pdf2ps, [pdf2ps, input_file self, fixPDF_ps self])])))) \<and>
   (use_pdftk self \<and> \<not> isfile (files (merge_pdftk self os w)) (output_pdf self) \<longrightarrow>
      calls (merge_pdftk self os w) = calls w @
        [(Merge_pdftk, [path_pdftk self, input_file self, ''multibackground'', ocr_pdf self,
            ''output'', output_pdf self])] \<and>
      build_final_output self os w =
        Inl (SystemExit 1, cleanup self (eprint output_not_created (merge_pdftk self os w))) \<and>
      ocr_final_stages self os w = build_final_output self os w \<and>
      calls (world_of (ocr_final_stages self os w)) = calls (merge_pdftk self os w)) \<and>
   exit_status (SystemExit 1) = 1 \<and> exit_status TypeError = 1"
proof (intro conjI impI allI)
  assume h: "\<not> use_pdftk self \<and> \<not> isfile (files (merge_script self os w)) (output_pdf self)"
  show b: "build_final_output self os w =
        check_output self (try_repair_input_and_merge self os (merge_script self os w))"
    using assms h by (simp add: build_final_output_def direct_merge_def Let_def)
  fix pdf2ps ps2pdf
  assume g: "path_pdf2ps self = Some pdf2ps \<and> path_ps2pdf self = Some ps2pdf"
  then obtain w_r where r: "try_repair_input_and_merge self os (merge_script self os w) = Inr w_r"
    and c: "calls w_r = calls (merge_script self os w) @
             [(Repair_pdf2ps, [pdf2ps, input_file self, fixPDF_ps self]),
              (Repair_ps2pdf, [ps2pdf, fixPDF_ps self, fixPDF_pdf self]),
              (Repair_merge, [path_this_python self, multibackground_py self, fixPDF_pdf self,
                 ocr_pdf self, output_pdf self])]"
    using try_repair_calls[of self pdf2ps ps2pdf os "merge_script self os w"] by blast
  have c': "calls w_r = calls w @
              [(Merge, [path_this_python self, multibackground_py self, input_file self,
                  ocr_pdf self, output_pdf self]),
               (Repair_pdf2ps, [pdf2ps, input_file self, fixPDF_ps self]),
               (Repair_ps2pdf, [ps2pdf, fixPDF_ps self, fixPDF_pdf self]),
               (Repair_merge, [path_this_python self, multibackground_py self, fixPDF_pdf self,
                  ocr_pdf self, output_pdf self])]"
    unfolding c by (simp add: merge_script_def)
  have f: "\<not> isfile (files w_r) (output_pdf self) \<longrightarrow>
       build_final_output self os w =
         Inl (SystemExit 1, cleanup self (eprint output_not_created w_r)) \<and>
       ocr_final_stages self os w = build_final_output self os w \<and>
       calls (world_of (ocr_final_stages self os w)) = calls w_r \<and>
       (\<forall>p. map_of (files (world_of (ocr_final_stages self os w))) p = None \<or>
            map_of (files (world_of (ocr_final_stages self os w))) p = map_of (files w_r) p)"
  proof
    assume "\<not> isfile (files w_r) (output_pdf self)"
    then have x: "build_final_output self os w =
        Inl (SystemExit 1, cleanup self (eprint output_not_created w_r))"
      by (simp add: b r check_output_def)
    then have y: "ocr_final_stages self os w =
        Inl (SystemExit 1, cleanup self (eprint output_not_created w_r))"
      by (rule ocr_final_stages_failed)
    have z: "world_of (ocr_final_stages self os w) = cleanup self (eprint output_not_created w_r)"
      unfolding y by (simp add: world_of_def)
    have "\<forall>p. map_of (files (cleanup self (eprint output_not_created w_r))) p = None \<or>
            map_of (files (cleanup self (eprint output_not_created w_r))) p = map_of (files w_r) p"
      using files_cleanup[of self "eprint output_not_created w_r"] by simp
    then show "build_final_output self os w =
         Inl (SystemExit 1, cleanup self (eprint output_not_created w_r)) \<and>
       ocr_final_stages self os w = build_final_output self os w \<and>
       calls (world_of (ocr_final_stages self os w)) = calls w_r \<and>
       (\<forall>p. map_of (files (world_of (ocr_final_stages self os w))) p = None \<or>
            map_of (files (world_of (ocr_final_stages self os w))) p = map_of (files w_r) p)"
      unfolding z using x y by (simp add: calls_cleanup)
  qed
  show "\<exists>w_r. try_repair_input_and_merge self os (merge_script self os w) = Inr w_r \<and>
            calls w_r = calls w @
              [(Merge, [path_this_python self, multibackground_py self, input_file self,
                  ocr_pdf self, output_pdf self]),
               (Repair_pdf2ps, [pdf2ps, input_file self, fixPDF_ps self]),
               (Repair_ps2pdf, [ps2pdf, fixPDF_ps self, fixPDF_pdf self]),
               (Repair_merge, [path_this_python self, multibackground_py self, fixPDF_pdf self,
                  ocr_pdf self, output_pdf self])] \<and>
            (\<not> isfile (files w_r) (output_pdf self) \<longrightarrow>
               build_final_output self os w =
                 Inl (SystemExit 1, cleanup self (eprint output_not_created w_r)) \<and>
               ocr_final_stages self os w = build_final_output self os w \<and>
               calls (world_of (ocr_final_stages self os w)) = calls w_r \<and>
               (\<forall>p. map_of (files (world_of (ocr_final_stages self os w))) p = None \<or>
                    map_of (files (world_of (ocr_final_stages self os w))) p =
                      map_of (files w_r) p))"
    by (intro exI conjI) (rule r, rule c', rule f)
next
  assume h: "\<not> use_pdftk self \<and> \<not> isfile (files (merge_script self os w)) (output_pdf self)"
  assume n: "path_pdf2ps self = None \<or> path_ps2pdf self = None"
  have b: "build_final_output self os w =
        check_output self (try_repair_input_and_merge self os (merge_script self os w))"
    using assms h by (simp add: build_final_output_def direct_merge_def Let_def)
  from try_repair_without_ghostscript[OF n, of os "merge_script self os w"] obtain w' where
    r: "try_repair_input_and_merge self os (merge_script self os w) = Inl (TypeError, w')"
    and c: "calls w' = calls (merge_script self os w) @
             (case path_pdf2ps self of None \<Rightarrow> []
              | Some pdf2ps \<Rightarrow> [(Repair_pdf2ps, [pdf2ps, input_file self, fixPDF_ps self])])"
    by blast
  have x: "build_final_output self os w = Inl (TypeError, w')"
    by (simp add: b r check_output_def)
  then have y: "ocr_final_stages self os w = Inl (TypeError, w')"
    by (rule ocr_final_stages_failed)
  have c': "calls w' = calls w @
                 (Merge, [path_this_python self, multibackground_py self, input_file self,
                    ocr_pdf self, output_pdf self]) #
                 (case path_pdf2ps self of None \<Rightarrow> []
                  | Some pdf2ps \<Rightarrow> [(Repair_pdf2ps, [pdf2ps, input_file self, fixPDF_ps self])])"
    unfolding c by (simp add: merge_script_def)
  have e: "ocr_final_stages self os w = build_final_output self os w"
    unfolding x y by (rule refl)
  show "\<exists>w'. try_repair_input_and_merge self os (merge_script self os w) = Inl (TypeError, w') \<and>
               build_final_output self os w = Inl (TypeError, w') \<and>
               ocr_final_stages self os w = build_final_output self os w \<and>
               calls w' = calls w @
                 (Merge, [path_this_python self, multibackground_py self, input_file self,
                    ocr_pdf self, output_pdf self]) #
                 (case path_pdf2ps self of None \<Rightarrow> []
                  | Some pdf2ps \<Rightarrow> [(Repair_pdf2ps, [pdf2ps, input_file self, fixPDF_ps self])])"
    by (intro exI conjI) (rule r, rule x, rule e, rule c')
next
  assume h: "use_pdftk self \<and> \<not> isfile (files (merge_pdftk self os w)) (output_pdf self)"
  show "calls (merge_pdftk self os w) = calls w @
        [(Merge_pdftk, [path_pdftk self, input_file self, ''multibackground'', ocr_pdf self,
            ''output'', output_pdf self])]"
    by (simp add: merge_pdftk_def)
  show x: "build_final_output self os w =
      Inl (SystemExit 1, cleanup self (eprint output_not_created (merge_pdftk self os w)))"
    using assms h by (simp add: build_final_output_def direct_merge_def check_output_def)
  then have y: "ocr_final_stages self os w =
      Inl (SystemExit 1, cleanup self (eprint output_not_created (merge_pdftk self os w)))"
    by (rule ocr_final_stages_failed)
  show "ocr_final_stages self os w = build_final_output self os w"
    unfolding x y by (rule refl)
  show "calls (world_of (ocr_final_stages self os w)) = calls (merge_pdftk self os w)"
    unfolding y by (simp add: world_of_def calls_cleanup)
next
  show "exit_status (SystemExit 1) = 1" by (simp add: exit_status_def)
  show "exit_status TypeError = 1" by (simp add: exit_status_def)
qed

lemma merge_fallback_example:
  "\<not> rebuild_pdf_from_images self_ex" "\<not> force_rebuild_mode self_ex" "\<not> use_pdftk self_ex"
  "\<not> isfile (files (merge_script self_ex os_failing w_merge)) (output_pdf self_ex)"
  "path_pdf2ps self_ex = Some ''/usr/bin/pdf2ps''" "path_ps2pdf self_ex = Some ''/usr/bin/ps2pdf''"
  "\<not> isfile (files (projr (try_repair_input_and_merge self_ex os_failing
        (merge_script self_ex os_failing w_merge)))) (output_pdf self_ex)"
  "map_of (files (projr (try_repair_input_and_merge self_ex os_failing
        (merge_script self_ex os_failing w_merge)))) (output_file self_ex) = None"
  "calls w_merge = []"
  by code_simp+

lemma merge_fallback_example_args:
  "[path_this_python self_ex, multibackground_py self_ex, input_file self_ex, ocr_pdf self_ex,
    output_pdf self_ex] =
   [''/usr/bin/python3'', ''/opt/pdf2pdfocr/pdf2pdfocr_multibackground.py'', ''/home/u/scan.pdf'',
    ''/tmp/pfx-ocr.pdf'', ''/tmp/pfx-OUTPUT.pdf'']"
  "[''/usr/bin/pdf2ps'', input_file self_ex, fixPDF_ps self_ex] =
   [''/usr/bin/pdf2ps'', ''/home/u/scan.pdf'', ''/tmp/pfx-fixPDF.ps'']"
  "[''/usr/bin/ps2pdf'', fixPDF_ps self_ex, fixPDF_pdf self_ex] =
   [''/usr/bin/ps2pdf'', ''/tmp/pfx-fixPDF.ps'', ''/tmp/pfx-fixPDF.pdf'']"
  "[path_this_python self_ex, multibackground_py self_ex, fixPDF_pdf self_ex, ocr_pdf self_ex,
    output_pdf self_ex] =
   [''/usr/bin/python3'', ''/opt/pdf2pdfocr/pdf2pdfocr_multibackground.py'', ''/tmp/pfx-fixPDF.pdf'',
    ''/tmp/pfx-ocr.pdf'', ''/tmp/pfx-OUTPUT.pdf'']"
  by code_simp+

lemma merge_fallback_example_no_gs:
  "\<not> rebuild_pdf_from_images self_no_gs" "\<not> force_rebuild_mode self_no_gs" "\<not> use_pdftk self_no_gs"
  "\<not> isfile (files (merge_script self_no_gs os_failing w_merge)) (output_pdf self_no_gs)"
  "path_pdf2ps self_no_gs = None"
  "[path_this_python self_no_gs, multibackground_py self_no_gs, input_file self_no_gs,
    ocr_pdf self_no_gs, output_pdf self_no_gs] =
   [''/usr/bin/python3'', ''/opt/pdf2pdfocr/pdf2pdfocr_multibackground.py'', ''/home/u/scan.pdf'',
    ''/tmp/pfx-ocr.pdf'', ''/tmp/pfx-OUTPUT.pdf'']"
  by code_simp+

lemma merge_fallback_example_pdftk:
  "\<not> rebuild_pdf_from_images self_pdftk" "\<not> force_rebuild_mode self_pdftk" "use_pdftk self_pdftk"
  "\<not> isfile (files (merge_pdftk self_pdftk os_failing w_merge)) (output_pdf self_pdftk)"
  "calls w_merge = []"
  "[path_pdftk self_pdftk, input_file self_pdftk, ''multibackground'', ocr_pdf self_pdftk,
    ''output'', output_pdf self_pdftk] =
   [''/usr/bin/pdftk'', ''/home/u/scan.pdf'', ''multibackground'', ''/tmp/pfx-ocr.pdf'',
    ''output'', ''/tmp/pfx-OUTPUT.pdf'']"
  by code_simp+

theorem merge_fallback_chain_witness:
  "\<not> rebuild_pdf_from_images self_ex \<and> \<not> force_rebuild_mode self_ex \<and> \<not> use_pdftk self_ex \<and>
   \<not> isfile (files (merge_script self_ex os_failing w_merge)) (output_pdf self_ex) \<and>
   build_final_output self_ex os_failing w_merge =
     check_output self_ex
       (try_repair_input_and_merge self_ex os_failing (merge_script self_ex os_failing w_merge)) \<and>
   (\<exists>w_r. try_repair_input_and_merge self_ex os_failing (merge_script self_ex os_failing w_merge)
        = Inr w_r \<and>
      calls w_r =
        [(Merge, [''/usr/bin/python3'', ''/opt/pdf2pdfocr/pdf2pdfocr_multibackground.py'',
            ''/home/u/scan.pdf'', ''/tmp/pfx-ocr.pdf'', ''/tmp/pfx-OUTPUT.pdf'']),
         (Repair_pdf2ps, [''/usr/bin/pdf2ps'', ''/home/u/scan.pdf'', ''/tmp/pfx-fixPDF.ps'']),
         (Repair_ps2pdf, [''/usr/bin/ps2pdf'', ''/tmp/pfx-fixPDF.ps'', ''/tmp/pfx-fixPDF.pdf'']),
         (Repair_merge, [''/usr/bin/python3'', ''/opt/pdf2pdfocr/pdf2pdfocr_multibackground.py'',
            ''/tmp/pfx-fixPDF.pdf'', ''/tmp/pfx-ocr.pdf'', ''/tmp/pfx-OUTPUT.pdf''])] \<and>
      \<not> isfile (files w_r) (output_pdf self_ex) \<and>
      build_final_output self_ex os_failing w_merge =
        Inl (SystemExit 1, cleanup self_ex (eprint output_not_created w_r)) \<and>
      ocr_final_stages self_ex os_failing w_merge = build_final_output self_ex os_failing w_merge \<and>
      calls (world_of (ocr_final_stages self_ex os_failing w_merge)) = calls w_r \<and>
      map_of (files w_r) (output_file self_ex) = None \<and>
      map_of (files (world_of (ocr_final_stages self_ex os_failing w_merge))) (output_file self_ex)
        = None) \<and>
   path_pdf2ps self_no_gs = None \<and>
   (\<exists>w'. try_repair_input_and_merge self_no_gs os_failing
            (merge_script self_no_gs os_failing w_merge) = Inl (TypeError, w') \<and>
      build_final_output self_no_gs os_failing w_merge = Inl (TypeError, w') \<and>
      ocr_final_stages self_no_gs os_failing w_merge =
        build_final_output self_no_gs os_failing w_merge \<and>
      calls w' =
        [(Merge, [''/usr/bin/python3'', ''/opt/pdf2pdfocr/pdf2pdfocr_multibackground.py'',
            ''/home/u/scan.pdf'', ''/tmp/pfx-ocr.pdf'', ''/tmp/pfx-OUTPUT.pdf''])]) \<and>
   \<not> rebuild_pdf_from_images self_pdftk \<and> \<not> force_rebuild_mode self_pdftk \<and> use_pdftk self_pdftk \<and>
   \<not> isfile (files (merge_pdftk self_pdftk os_failing w_merge)) (output_pdf self_pdftk) \<and>
   calls (merge_pdftk self_pdftk os_failing w_merge) =
     [(Merge_pdftk, [''/usr/bin/pdftk'', ''/home/u/scan.pdf'', ''multibackground'',
         ''/tmp/pfx-ocr.pdf'', ''output'', ''/tmp/pfx-OUTPUT.pdf''])] \<and>
   build_final_output self_pdftk os_failing w_merge =
     Inl (SystemExit 1,
          cleanup self_pdftk (eprint output_not_created (merge_pdftk self_pdftk os_failing w_merge))) \<and>
   ocr_final_stages self_pdftk os_failing w_merge =
     build_final_output self_pdftk os_failing w_merge \<and>
   exit_status (SystemExit 1) = 1 \<and> exit_status TypeError = 1"
proof -
  note e = merge_fallback_example
  note a = merge_fallback_example_args
  note p = merge_fallback_example_pdftk
  note g = merge_fallback_example_no_gs
  note t = merge_fallback_chain[OF e(1) e(2), of os_failing w_merge]
  from t e(3) e(4) have b: "build_final_output self_ex os_failing w_merge =
     check_output self_ex
       (try_repair_input_and_merge self_ex os_failing (merge_script self_ex os_failing w_merge))"
    by blast
  from t e(3) e(4) e(5) e(6) obtain w_r where
    r: "try_repair_input_and_merge self_ex os_failing (merge_script self_ex os_failing w_merge)
        = Inr w_r"
    and c: "calls w_r = calls w_merge @
              [(Merge, [path_this_python self_ex, multibackground_py self_ex, input_file self_ex,
                  ocr_pdf self_ex, output_pdf self_ex]),
               (Repair_pdf2ps, [''/usr/bin/pdf2ps'', input_file self_ex, fixPDF_ps self_ex]),
               (Repair_ps2pdf, [''/usr/bin/ps2pdf'', fixPDF_ps self_ex, fixPDF_pdf self_ex]),
               (Repair_merge, [path_this_python self_ex, multibackground_py self_ex,
                  fixPDF_pdf self_ex, ocr_pdf self_ex, output_pdf self_ex])]"
    and f: "\<not> isfile (files w_r) (output_pdf self_ex) \<longrightarrow>
       build_final_output self_ex os_failing w_merge =
         Inl (SystemExit 1, cleanup self_ex (eprint output_not_created w_r)) \<and>
       ocr_final_stages self_ex os_failing w_merge = build_final_output self_ex os_failing w_merge \<and>
       calls (world_of (ocr_final_stages self_ex os_failing w_merge)) = calls w_r \<and>
       (\<forall>p. map_of (files (world_of (ocr_final_stages self_ex os_failing w_merge))) p = None \<or>
            map_of (files (world_of (ocr_final_stages self_ex os_failing w_merge))) p =
              map_of (files w_r) p)"
    by blast
  have c': "calls w_r =
        [(Merge, [''/usr/bin/python3'', ''/opt/pdf2pdfocr/pdf2pdfocr_multibackground.py'',
            ''/home/u/scan.pdf'', ''/tmp/pfx-ocr.pdf'', ''/tmp/pfx-OUTPUT.pdf'']),
         (Repair_pdf2ps, [''/usr/bin/pdf2ps'', ''/home/u/scan.pdf'', ''/tmp/pfx-fixPDF.ps'']),
         (Repair_ps2pdf, [''/usr/bin/ps2pdf'', ''/tmp/pfx-fixPDF.ps'', ''/tmp/pfx-fixPDF.pdf'']),
         (Repair_merge, [''/usr/bin/python3'', ''/opt/pdf2pdfocr/pdf2pdfocr_multibackground.py'',
            ''/tmp/pfx-fixPDF.pdf'', ''/tmp/pfx-ocr.pdf'', ''/tmp/pfx-OUTPUT.pdf''])]"
    unfolding c e(9) a by simp
  have i: "\<not> isfile (files w_r) (output_pdf self_ex)" using e(7) by (simp add: r)
  have o: "map_of (files w_r) (output_file self_ex) = None" using e(8) by (simp add: r)
  from f i have f1: "build_final_output self_ex os_failing w_merge =
         Inl (SystemExit 1, cleanup self_ex (eprint output_not_created w_r))"
    and f2: "ocr_final_stages self_ex os_failing w_merge =
         build_final_output self_ex os_failing w_merge"
    and f3: "calls (world_of (ocr_final_stages self_ex os_failing w_merge)) = calls w_r"
    and f4: "map_of (files (world_of (ocr_final_stages self_ex os_failing w_merge)))
               (output_file self_ex) = None \<or>
             map_of (files (world_of (ocr_final_stages self_ex os_failing w_merge)))
               (output_file self_ex) = map_of (files w_r) (output_file self_ex)"
    by blast+
  have f5: "map_of (files (world_of (ocr_final_stages self_ex os_failing w_merge)))
               (output_file self_ex) = None"
    using f4 unfolding o by blast
  have x: "\<exists>w_r. try_repair_input_and_merge self_ex os_failing (merge_script self_ex os_failing w_merge)
        = Inr w_r \<and>
      calls w_r =
        [(Merge, [''/usr/bin/python3'', ''/opt/pdf2pdfocr/pdf2pdfocr_multibackground.py'',
            ''/home/u/scan.pdf'', ''/tmp/pfx-ocr.pdf'', ''/tmp/pfx-OUTPUT.pdf'']),
         (Repair_pdf2ps, [''/usr/bin/pdf2ps'', ''/home/u/scan.pdf'', ''/tmp/pfx-fixPDF.ps'']),
         (Repair_ps2pdf, [''/usr/bin/ps2pdf'', ''/tmp/pfx-fixPDF.ps'', ''/tmp/pfx-fixPDF.pdf'']),
         (Repair_merge, [''/usr/bin/python3'', ''/opt/pdf2pdfocr/pdf2pdfocr_multibackground.py'',
            ''/tmp/pfx-fixPDF.pdf'', ''/tmp/pfx-ocr.pdf'', ''/tmp/pfx-OUTPUT.pdf''])] \<and>
      \<not> isfile (files w_r) (output_pdf self_ex) \<and>
      build_final_output self_ex os_failing w_merge =
        Inl (SystemExit 1, cleanup self_ex (eprint output_not_created w_r)) \<and>
      ocr_final_stages self_ex os_failing w_merge = build_final_output self_ex os_failing w_merge \<and>
      calls (world_of (ocr_final_stages self_ex os_failing w_merge)) = calls w_r \<and>
      map_of (files w_r) (output_file self_ex) = None \<and>
      map_of (files (world_of (ocr_final_stages self_ex os_failing w_merge))) (output_file self_ex)
        = None"
    by (intro exI conjI) (rule r, rule c', rule i, rule f1, rule f2, rule f3, rule o, rule f5)
  note u = merge_fallback_chain[OF p(1) p(2), of os_failing w_merge]
  from u p(3) p(4) have y: "calls (merge_pdftk self_pdftk os_failing w_merge) = calls w_merge @
        [(Merge_pdftk, [path_pdftk self_pdftk, input_file self_pdftk, ''multibackground'',
            ocr_pdf self_pdftk, ''output'', output_pdf self_pdftk])]"
    and z: "build_final_output self_pdftk os_failing w_merge =
     Inl (SystemExit 1,
          cleanup self_pdftk (eprint output_not_created (merge_pdftk self_pdftk os_failing w_merge)))"
    and z2: "ocr_final_stages self_pdftk os_failing w_merge =
     build_final_output self_pdftk os_failing w_merge"
    by blast+
  have y': "calls (merge_pdftk self_pdftk os_failing w_merge) =
     [(Merge_pdftk, [''/usr/bin/pdftk'', ''/home/u/scan.pdf'', ''multibackground'',
         ''/tmp/pfx-ocr.pdf'', ''output'', ''/tmp/pfx-OUTPUT.pdf''])]"
    unfolding y p(5) p(6) by simp
  note v = merge_fallback_chain[OF g(1) g(2), of os_failing w_merge]
  from v g(3) g(4) g(5) obtain w' where
    n1: "try_repair_input_and_merge self_no_gs os_failing
            (merge_script self_no_gs os_failing w_merge) = Inl (TypeError, w')"
    and n2: "build_final_output self_no_gs os_failing w_merge = Inl (TypeError, w')"
    and n3: "ocr_final_stages self_no_gs os_failing w_merge =
        build_final_output self_no_gs os_failing w_merge"
    and n4: "calls w' = calls w_merge @
                 (Merge, [path_this_python self_no_gs, multibackground_py self_no_gs,
                    input_file self_no_gs, ocr_pdf self_no_gs, output_pdf self_no_gs]) #
                 (case path_pdf2ps self_no_gs of None \<Rightarrow> []
                  | Some pdf2ps \<Rightarrow>
                      [(Repair_pdf2ps, [pdf2ps, input_file self_no_gs, fixPDF_ps self_no_gs])])"
    by blast
  have n4': "calls w' =
        [(Merge, [''/usr/bin/python3'', ''/opt/pdf2pdfocr/pdf2pdfocr_multibackground.py'',
            ''/home/u/scan.pdf'', ''/tmp/pfx-ocr.pdf'', ''/tmp/pfx-OUTPUT.pdf''])]"
    unfolding n4 e(9) g(5) g(6) by simp
  have n: "\<exists>w'. try_repair_input_and_merge self_no_gs os_failing
            (merge_script self_no_gs os_failing w_merge) = Inl (TypeError, w') \<and>
      build_final_output self_no_gs os_failing w_merge = Inl (TypeError, w') \<and>
      ocr_final_stages self_no_gs os_failing w_merge =
        build_final_output self_no_gs os_failing w_merge \<and>
      calls w' =
        [(Merge, [''/usr/bin/python3'', ''/opt/pdf2pdfocr/pdf2pdfocr_multibackground.py'',
            ''/home/u/scan.pdf'', ''/tmp/pfx-ocr.pdf'', ''/tmp/pfx-OUTPUT.pdf''])]"
    by (intro exI conjI) (rule n1, rule n2, rule n3, rule n4')
  from u have s: "exit_status (SystemExit 1) = 1" "exit_status TypeError = 1" by blast+
  show ?thesis
    by (intro conjI) (rule e(1) e(2) e(3) e(4) b x g(5) n p(1) p(2) p(3) p(4) y' z z2 s)+
qed

text \<open>
  Claim C4 as stated fails when pdftk does the merge: the candidate is absent after the
  merge attempt, the run ends with \<open>SystemExit 1\<close>, and the only external call was the
  pdftk merge. No PostScript round trip and no second merge took place.
\<close>

theorem pdftk_merge_failure_not_repaired:
  "\<not> rebuild_pdf_from_images self_pdftk \<and> \<not> force_rebuild_mode self_pdftk \<and>
   \<not> isfile (files (merge_pdftk self_pdftk os_failing w_merge)) (output_pdf self_pdftk) \<and>
   fst (projl (build_final_output self_pdftk os_failing w_merge)) = SystemExit 1 \<and>
   calls (world_of (build_final_output self_pdftk os_failing w_merge)) =
     [(Merge_pdftk,
       [''/usr/bin/pdftk'', ''/home/u/scan.pdf'', ''multibackground'', ''/tmp/pfx-ocr.pdf'',
        ''output'', ''/tmp/pfx-OUTPUT.pdf''])] \<and>
   Repair_pdf2ps \<notin> set (map fst (calls (world_of (build_final_output self_pdftk os_failing w_merge))))"
  by code_simp

section \<open>Properties of the overlay assembler\<close>

lemma files_cleanup_subset: "set (files (cleanup self w)) \<subseteq> set (files w)"
  by (auto simp: cleanup_def eprint_def)

lemma stdout_cleanup [simp]: "stdout (cleanup self w) = stdout w"
  by (simp add: cleanup_def eprint_def)

lemma stdout_eprint [simp]: "stdout (eprint m w) = stdout w"
  by (simp add: eprint_def)

lemma stdout_debug:
  "stdout (debug self m w) = stdout w @ (if verbose_mode self then [(DEBUG, m)] else [])"
  by (simp add: debug_def)

lemma set_text_pdf_file_list:
  "set (text_pdf_file_list self w) = set (glob (files w) (tmp_dir self) (prefix self @ ''*.pdf''))"
  by (simp add: text_pdf_file_list_def)

lemma sorted_text_pdf_file_list: "sorted (text_pdf_file_list self w)"
  by (simp add: text_pdf_file_list_def)

text \<open>
  Claim C3. When no file matches the overlay pattern, \<open>join_ocred_pdf\<close> ends with
  \<open>SystemExit 1\<close>: it prints the message that no PDF files were generated, runs the
  cleanup, and writes nothing: every file present afterwards was present before with the
  same content, so no overlay document, empty or not, is produced.
\<close>

theorem join_ocred_pdf_no_overlays:
  assumes "glob (files w) (tmp_dir self) (prefix self @ ''*.pdf'') = []"
  shows "\<exists>w'. join_ocred_pdf self w = Inl (SystemExit 1, w') \<and>
           exit_status (SystemExit 1) \<noteq> 0 \<and>
           set (files w') \<subseteq> set (files w) \<and>
           stderr w' = stderr w @ [no_pdf_files_generated]
             @ (if delete_temps self then [] else [Text (''Temporary files kept in '' @ tmp_dir self)])"
proof -
  have e: "text_pdf_file_list self w = []"
    using assms by (simp add: text_pdf_file_list_def)
  have j: "join_ocred_pdf self w =
      Inl (SystemExit 1,
           cleanup self (eprint no_pdf_files_generated (debug self (We_have_ocred_files 0) w)))"
    by (simp add: join_ocred_pdf_def e)
  have s: "set (files (cleanup self (eprint no_pdf_files_generated
              (debug self (We_have_ocred_files 0) w)))) \<subseteq> set (files w)"
    using files_cleanup_subset[of self "eprint no_pdf_files_generated
              (debug self (We_have_ocred_files 0) w)"]
    by simp
  show ?thesis
    using j s by (simp add: exit_status_def stderr_cleanup)
qed

theorem join_ocred_pdf_no_overlays_witness:
  "glob (files w_none) (tmp_dir self_ex) (prefix self_ex @ ''*.pdf'') = [] \<and>
   fst (projl (join_ocred_pdf self_ex w_none)) = SystemExit 1 \<and>
   stderr (world_of (join_ocred_pdf self_ex w_none)) = [no_pdf_files_generated] \<and>
   \<not> isfile (files (world_of (join_ocred_pdf self_ex w_none))) (ocr_pdf self_ex)"
proof -
  have g: "glob (files w_none) (tmp_dir self_ex) (prefix self_ex @ ''*.pdf'') = []"
    by code_simp
  have d: "delete_temps self_ex" "stderr w_none = []" "\<not> isfile (files w_none) (ocr_pdf self_ex)"
    by code_simp+
  from join_ocred_pdf_no_overlays[OF g] obtain w' where
    j: "join_ocred_pdf self_ex w_none = Inl (SystemExit 1, w')"
    and s: "set (files w') \<subseteq> set (files w_none)"
    and m: "stderr w' = stderr w_none @ [no_pdf_files_generated]
             @ (if delete_temps self_ex then [] else [Text (''Temporary files kept in '' @ tmp_dir self_ex)])"
    by blast
  have "\<not> isfile (files w') (ocr_pdf self_ex)"
  proof
    assume "isfile (files w') (ocr_pdf self_ex)"
    then obtain c where "(ocr_pdf self_ex, c) \<in> set (files w')"
      by (auto simp: isfile_def dest: map_of_SomeD)
    then have "(ocr_pdf self_ex, c) \<in> set (files w_none)" using s by blast
    then show False by (simp add: w_none_def ocr_pdf_def self_ex_def)
  qed
  then show ?thesis using g j m d by (simp add: world_of_def)
qed

lemma merger_append_pdfs:
  assumes "\<forall>f\<in>set l. is_pdf (map_of fs f)"
  shows "merger_append fs l acc = Inr (acc @ concat (map (\<lambda>f. pages_of (the (map_of fs f))) l))"
  using assms
proof (induction l arbitrary: acc)
  case Nil
  then show ?case by simp
next
  case (Cons f l)
  from Cons.prems obtain pages i where p: "map_of fs f = Some (Pdf pages i)"
    by (auto simp: is_pdf_def split: option.splits file_content.splits)
  from Cons.prems have "\<forall>f\<in>set l. is_pdf (map_of fs f)" by simp
  from Cons.IH[OF this] show ?case by (simp add: p pages_of_def)
qed

text \<open>
  What \<open>join_ocred_pdf\<close> does when at least one overlay exists and every matched file is a
  readable document: it succeeds, writes the assembled document and prints at most two
  debug lines.
\<close>

lemma join_ocred_pdf_some:
  assumes l: "l = text_pdf_file_list self w" and ne: "l \<noteq> []"
    and pdfs: "\<forall>f\<in>set l. is_pdf (map_of (files w) f)"
    and fresh: "ocr_pdf self \<notin> set l"
  shows "join_ocred_pdf self w =
     Inr (debug self joined_ocred_files
       ((debug self (We_have_ocred_files (length l)) w)
          \<lparr>files := AList.update (ocr_pdf self)
             (if length l = 1 then the (map_of (files w) (hd l))
              else Pdf (concat (map (\<lambda>f. pages_of (the (map_of (files w) f))) l)) [])
             (files w)\<rparr>))"
proof (cases "length l > 1")
  case True
  have m: "merger_append (files w) l [] =
      Inr (concat (map (\<lambda>f. pages_of (the (map_of (files w) f))) l))"
    using merger_append_pdfs[OF pdfs, of "[]"] by simp
  show ?thesis
    using True m by (simp add: join_ocred_pdf_def l[symmetric] Let_def)
next
  case False
  with ne have one: "length l = 1" by (cases l) simp_all
  then obtain f where lf: "l = [f]" by (cases l) simp_all
  from pdfs lf obtain c where c: "map_of (files w) f = Some c"
    by (auto simp: is_pdf_def split: option.splits)
  from fresh lf have d: "f \<noteq> ocr_pdf self" by simp
  have "copyfile f (ocr_pdf self) (files w) = Inr (AList.update (ocr_pdf self) c (files w))"
    using c d by (simp add: copyfile_def)
  then show ?thesis
    using lf c by (simp add: join_ocred_pdf_def l[symmetric] Let_def)
qed

lemma distinct_glob:
  assumes "distinct (map fst fs)"
  shows "distinct (glob fs dir pat)"
proof -
  let ?k = "length dir"
  let ?ps = "filter (\<lambda>p. take ?k p = dir) (map fst fs)"
  have "inj_on (drop ?k) (set ?ps)"
  proof (rule inj_onI)
    fix x y
    assume "x \<in> set ?ps" "y \<in> set ?ps" "drop ?k x = drop ?k y"
    then have "take ?k x @ drop ?k x = take ?k y @ drop ?k y" by simp
    then show "x = y" by simp
  qed
  then have "distinct (map (drop ?k) ?ps)"
    using assms by (simp add: distinct_map)
  then have "distinct (listdir fs dir)" by (simp add: listdir_def)
  then show ?thesis by (simp add: glob_def distinct_map inj_on_def)
qed

lemma glob_listing_order:
  assumes "distinct (map fst fs)" and "distinct (map fst fs2)" and "set fs2 = set fs"
  shows "sort (glob fs2 dir pat) = sort (glob fs dir pat)"
proof -
  have "set (map fst fs2) = set (map fst fs)" using assms(3) by simp
  then have "set (glob fs2 dir pat) = set (glob fs dir pat)"
    by (simp add: glob_def listdir_def)
  then show ?thesis
    using distinct_glob[OF assms(1), of dir pat] distinct_glob[OF assms(2), of dir pat]
    by (intro sorted_distinct_set_unique) simp_all
qed

lemma map_of_ocr_update [simp]:
  "map_of (files (debug self m (w\<lparr>files := AList.update k c fs\<rparr>))) k = Some c"
  by (simp add: debug_def update_conv')

text \<open>
  Claim C6. When at least one overlay exists (and the matched files are readable documents,
  none of them the assembled overlay itself), \<open>join_ocred_pdf\<close> succeeds; the list it
  works on is the sorted list of the matched file names; with exactly one overlay the
  assembled overlay is that file's content, copied; with several it is the concatenation of
  their pages in sorted file-name order. The result does not depend on the order in which
  the directory lists the files.
\<close>

theorem join_ocred_pdf_sorted_order:
  assumes "l = text_pdf_file_list self w" and "l \<noteq> []"
    and "\<forall>f\<in>set l. is_pdf (map_of (files w) f)"
    and "ocr_pdf self \<notin> set l"
  shows "sorted l \<and>
    set l = set (glob (files w) (tmp_dir self) (prefix self @ ''*.pdf'')) \<and>
    (\<exists>w'. join_ocred_pdf self w = Inr w' \<and>
       map_of (files w') (ocr_pdf self) =
         Some (if length l = 1 then the (map_of (files w) (hd l))
               else Pdf (concat (map (\<lambda>f. pages_of (the (map_of (files w) f))) l)) []) \<and>
       (\<forall>w2. distinct (map fst (files w)) \<and> distinct (map fst (files w2)) \<and>
              set (files w2) = set (files w) \<longrightarrow>
          (\<exists>w2'. join_ocred_pdf self w2 = Inr w2' \<and>
             map_of (files w2') (ocr_pdf self) = map_of (files w') (ocr_pdf self))))"
proof (intro conjI)
  show "sorted l" using assms(1) by (simp add: sorted_text_pdf_file_list)
  show "set l = set (glob (files w) (tmp_dir self) (prefix self @ ''*.pdf''))"
    using assms(1) by (simp add: set_text_pdf_file_list)
  let ?doc = "\<lambda>w. if length l = 1 then the (map_of (files w) (hd l))
               else Pdf (concat (map (\<lambda>f. pages_of (the (map_of (files w) f))) l)) []"
  let ?w' = "debug self joined_ocred_files
       ((debug self (We_have_ocred_files (length l)) w)
          \<lparr>files := AList.update (ocr_pdf self) (?doc w) (files w)\<rparr>)"
  have j: "join_ocred_pdf self w = Inr ?w'"
    using join_ocred_pdf_some[OF assms] .
  have m: "map_of (files ?w') (ocr_pdf self) = Some (?doc w)"
    by (simp add: debug_def update_conv')
  have o: "\<exists>w2'. join_ocred_pdf self w2 = Inr w2' \<and>
             map_of (files w2') (ocr_pdf self) = map_of (files ?w') (ocr_pdf self)"
    if h: "distinct (map fst (files w)) \<and> distinct (map fst (files w2)) \<and>
           set (files w2) = set (files w)" for w2
  proof -
    have mo: "map_of (files w2) = map_of (files w)"
      using h by (simp add: map_of_inject_set)
    have l2: "l = text_pdf_file_list self w2"
      using assms(1) h glob_listing_order[of "files w" "files w2"]
      by (simp add: text_pdf_file_list_def)
    have p2: "\<forall>f\<in>set l. is_pdf (map_of (files w2) f)" using assms(3) by (simp add: mo)
    let ?w2' = "debug self joined_ocred_files
       ((debug self (We_have_ocred_files (length l)) w2)
          \<lparr>files := AList.update (ocr_pdf self) (?doc w2) (files w2)\<rparr>)"
    have "join_ocred_pdf self w2 = Inr ?w2'"
      using join_ocred_pdf_some[OF l2 assms(2) p2 assms(4)] .
    moreover have "map_of (files ?w2') (ocr_pdf self) = Some (?doc w2)"
      by (simp add: debug_def update_conv')
    moreover have "?doc w2 = ?doc w" by (simp add: mo)
    ultimately show ?thesis using m by simp
  qed
  show "\<exists>w'. join_ocred_pdf self w = Inr w' \<and>
       map_of (files w') (ocr_pdf self) = Some (?doc w) \<and>
       (\<forall>w2. distinct (map fst (files w)) \<and> distinct (map fst (files w2)) \<and>
              set (files w2) = set (files w) \<longrightarrow>
          (\<exists>w2'. join_ocred_pdf self w2 = Inr w2' \<and>
             map_of (files w2') (ocr_pdf self) = map_of (files w') (ocr_pdf self)))"
    using j m o by blast
qed

lemma three_overlays:
  "text_pdf_file_list self_ex w_three =
     [''/tmp/pfx-001.pdf'', ''/tmp/pfx-002.pdf'', ''/tmp/pfx-003.pdf'']"
  "\<forall>f\<in>set [''/tmp/pfx-001.pdf'', ''/tmp/pfx-002.pdf'', ''/tmp/pfx-003.pdf''].
      is_pdf (map_of (files w_three) f)"
  "ocr_pdf self_ex \<notin> set [''/tmp/pfx-001.pdf'', ''/tmp/pfx-002.pdf'', ''/tmp/pfx-003.pdf'']"
  "concat (map (\<lambda>f. pages_of (the (map_of (files w_three) f)))
     [''/tmp/pfx-001.pdf'', ''/tmp/pfx-002.pdf'', ''/tmp/pfx-003.pdf'']) =
     [''page 1'', ''page 2'', ''page 3'']"
  "map fst (filter (\<lambda>e. is_pdf (Some (snd e))) (files w_three)) =
     [''/tmp/pfx-003.pdf'', ''/tmp/pfx-001.pdf'', ''/tmp/pfx-002.pdf'']"
  by code_simp+

lemma one_overlay:
  "text_pdf_file_list self_ex w_one = [''/tmp/pfx-1.pdf'']"
  "\<forall>f\<in>set [''/tmp/pfx-1.pdf'']. is_pdf (map_of (files w_one) f)"
  "ocr_pdf self_ex \<notin> set [''/tmp/pfx-1.pdf'']"
  "the (map_of (files w_one) ''/tmp/pfx-1.pdf'') = Pdf [''page 1''] []"
  by code_simp+

theorem join_ocred_pdf_sorted_order_witness:
  "text_pdf_file_list self_ex w_three =
     [''/tmp/pfx-001.pdf'', ''/tmp/pfx-002.pdf'', ''/tmp/pfx-003.pdf''] \<and>
   map fst (filter (\<lambda>e. is_pdf (Some (snd e))) (files w_three)) =
     [''/tmp/pfx-003.pdf'', ''/tmp/pfx-001.pdf'', ''/tmp/pfx-002.pdf''] \<and>
   map_of (files (world_of (join_ocred_pdf self_ex w_three))) (ocr_pdf self_ex) =
     Some (Pdf [''page 1'', ''page 2'', ''page 3''] []) \<and>
   text_pdf_file_list self_ex w_one = [''/tmp/pfx-1.pdf''] \<and>
   map_of (files (world_of (join_ocred_pdf self_ex w_one))) (ocr_pdf self_ex) =
     map_of (files w_one) ''/tmp/pfx-1.pdf''"
proof -
  note t = three_overlays
  note o = one_overlay
  have ne3: "[''/tmp/pfx-001.pdf'', ''/tmp/pfx-002.pdf'', ''/tmp/pfx-003.pdf''] \<noteq> []"
    by simp
  have ne1: "[''/tmp/pfx-1.pdf''] \<noteq> []" by simp
  note T = join_ocred_pdf_sorted_order[OF t(1)[symmetric] ne3 t(2) t(3)]
  from T have "\<exists>w'. join_ocred_pdf self_ex w_three = Inr w' \<and>
       map_of (files w') (ocr_pdf self_ex) =
         Some (if length [''/tmp/pfx-001.pdf'', ''/tmp/pfx-002.pdf'', ''/tmp/pfx-003.pdf''] = 1
               then the (map_of (files w_three)
                      (hd [''/tmp/pfx-001.pdf'', ''/tmp/pfx-002.pdf'', ''/tmp/pfx-003.pdf'']))
               else Pdf (concat (map (\<lambda>f. pages_of (the (map_of (files w_three) f)))
                      [''/tmp/pfx-001.pdf'', ''/tmp/pfx-002.pdf'', ''/tmp/pfx-003.pdf''])) [])"
    by blast
  then obtain w3 where j3: "join_ocred_pdf self_ex w_three = Inr w3"
    and r3: "map_of (files w3) (ocr_pdf self_ex) =
         Some (if length [''/tmp/pfx-001.pdf'', ''/tmp/pfx-002.pdf'', ''/tmp/pfx-003.pdf''] = 1
               then the (map_of (files w_three)
                      (hd [''/tmp/pfx-001.pdf'', ''/tmp/pfx-002.pdf'', ''/tmp/pfx-003.pdf'']))
               else Pdf (concat (map (\<lambda>f. pages_of (the (map_of (files w_three) f)))
                      [''/tmp/pfx-001.pdf'', ''/tmp/pfx-002.pdf'', ''/tmp/pfx-003.pdf''])) [])"
    by blast
  have m3: "map_of (files w3) (ocr_pdf self_ex) = Some (Pdf [''page 1'', ''page 2'', ''page 3''] [])"
    using r3 unfolding t(4) by simp
  note U = join_ocred_pdf_sorted_order[OF o(1)[symmetric] ne1 o(2) o(3)]
  from U have "\<exists>w'. join_ocred_pdf self_ex w_one = Inr w' \<and>
       map_of (files w') (ocr_pdf self_ex) =
         Some (if length [''/tmp/pfx-1.pdf''] = 1
               then the (map_of (files w_one) (hd [''/tmp/pfx-1.pdf'']))
               else Pdf (concat (map (\<lambda>f. pages_of (the (map_of (files w_one) f)))
                      [''/tmp/pfx-1.pdf''])) [])"
    by blast
  then obtain w1 where j1: "join_ocred_pdf self_ex w_one = Inr w1"
    and r1: "map_of (files w1) (ocr_pdf self_ex) =
         Some (if length [''/tmp/pfx-1.pdf''] = 1
               then the (map_of (files w_one) (hd [''/tmp/pfx-1.pdf'']))
               else Pdf (concat (map (\<lambda>f. pages_of (the (map_of (files w_one) f)))
                      [''/tmp/pfx-1.pdf''])) [])"
    by blast
  have m1: "map_of (files w1) (ocr_pdf self_ex) = Some (Pdf [''page 1''] [])"
    using r1 by (simp add: o(4))
  have c: "map_of (files w_one) ''/tmp/pfx-1.pdf'' = Some (Pdf [''page 1''] [])"
    by code_simp
  have k3: "map_of (files (world_of (join_ocred_pdf self_ex w_three))) (ocr_pdf self_ex) =
     Some (Pdf [''page 1'', ''page 2'', ''page 3''] [])"
    by (simp add: j3 world_of_def m3)
  have k1: "map_of (files (world_of (join_ocred_pdf self_ex w_one))) (ocr_pdf self_ex) =
     map_of (files w_one) ''/tmp/pfx-1.pdf''"
    by (simp add: j1 world_of_def m1 c)
  show ?thesis
    using t(1) t(5) k3 o(1) k1 by blast
qed

text \<open>
  Claim C7 as stated fails. Page 2 of three has no overlay (its expected file
  \<open>/tmp/pfx-002.pdf\<close>, the name \<open>do_ocr\<close> writes for the image \<open>/tmp/pfx-002.jpg\<close>,
  is absent) while the overlays of pages 1 and 3 exist. \<open>join_ocred_pdf\<close> succeeds, prints
  nothing on the error stream, logs only the number of files found, and assembles the two
  overlays that exist: page 2 is skipped silently.
\<close>

theorem missing_overlay_not_reported:
  "missing_overlays self_ex w_hole = [''/tmp/pfx-002.pdf''] \<and>
   text_pdf_file_list self_ex w_hole = [''/tmp/pfx-001.pdf'', ''/tmp/pfx-003.pdf''] \<and>
   \<not> isl (join_ocred_pdf self_ex w_hole) \<and>
   stderr (world_of (join_ocred_pdf self_ex w_hole)) = [] \<and>
   stdout (world_of (join_ocred_pdf self_ex w_hole)) =
     [(DEBUG, We_have_ocred_files 2), (DEBUG, joined_ocred_files)] \<and>
   map_of (files (world_of (join_ocred_pdf self_ex w_hole))) (ocr_pdf self_ex) =
     Some (Pdf [''page 1'', ''page 3''] [])"
  by code_simp

lemma merger_append_result:
  "merger_append fs l acc = Inr pages \<Longrightarrow>
     pages = acc @ concat (map (\<lambda>f. pages_of (the (map_of fs f))) l)"
proof (induction l arbitrary: acc)
  case Nil
  then show ?case by simp
next
  case (Cons f l)
  show ?case
  proof (cases "map_of fs f")
    case None
    then show ?thesis using Cons.prems by simp
  next
    case (Some c)
    show ?thesis
    proof (cases c)
      case (Pdf ps i)
      then have "merger_append fs l (acc @ ps) = Inr pages"
        using Cons.prems Some by simp
      from Cons.IH[OF this] show ?thesis
        using Some Pdf by (simp add: pages_of_def)
    next
      case Data
      then show ?thesis using Cons.prems Some by simp
    qed
  qed
qed

lemma merger_append_failure:
  "merger_append fs l acc = Inl e \<Longrightarrow> e = PdfReadError \<or> e = FileNotFoundError"
proof (induction l arbitrary: acc)
  case Nil
  then show ?case by simp
next
  case (Cons f l)
  show ?case
  proof (cases "map_of fs f")
    case None
    then show ?thesis using Cons.prems by simp
  next
    case (Some c)
    show ?thesis
    proof (cases c)
      case (Pdf ps i)
      then have "merger_append fs l (acc @ ps) = Inl e"
        using Cons.prems Some by simp
      from Cons.IH[OF this] show ?thesis .
    next
      case Data
      then show ?thesis using Cons.prems Some by simp
    qed
  qed
qed

text \<open>
  The two outcomes of \<open>join_ocred_pdf\<close> when at least one overlay is found: it raises a
  read or copy error in the state after the first debug line, or it returns after writing
  the assembled overlay and the second debug line.
\<close>

lemma join_ocred_pdf_outcome:
  assumes l: "l = text_pdf_file_list self w" and ne: "l \<noteq> []"
  shows "(\<exists>e. join_ocred_pdf self w = Inl (e, debug self (We_have_ocred_files (length l)) w) \<and>
            (e = PdfReadError \<or> e = FileNotFoundError \<or> e = SameFileError)) \<or>
         (\<exists>c. join_ocred_pdf self w =
            Inr (debug self joined_ocred_files
              ((debug self (We_have_ocred_files (length l)) w)
                 \<lparr>files := AList.update (ocr_pdf self) c (files w)\<rparr>)) \<and>
            pages_of c = concat (map (\<lambda>f. pages_of (the (map_of (files w) f))) l))"
proof (cases "length l > 1")
  case True
  show ?thesis
  proof (cases "merger_append (files w) l []")
    case (Inl e)
    then have "join_ocred_pdf self w = Inl (e, debug self (We_have_ocred_files (length l)) w)"
      using True by (simp add: join_ocred_pdf_def l[symmetric] Let_def)
    then show ?thesis using merger_append_failure[OF Inl] by blast
  next
    case (Inr pages)
    then have "join_ocred_pdf self w =
        Inr (debug self joined_ocred_files
              ((debug self (We_have_ocred_files (length l)) w)
                 \<lparr>files := AList.update (ocr_pdf self) (Pdf pages []) (files w)\<rparr>))"
      using True by (simp add: join_ocred_pdf_def l[symmetric] Let_def)
    moreover have "pages_of (Pdf pages []) = concat (map (\<lambda>f. pages_of (the (map_of (files w) f))) l)"
      using merger_append_result[OF Inr] by (simp add: pages_of_def)
    ultimately show ?thesis by blast
  qed
next
  case False
  with ne have one: "length l = 1" by (cases l) simp_all
  then obtain f where lf: "l = [f]" by (cases l) simp_all
  show ?thesis
  proof (cases "copyfile f (ocr_pdf self) (files w)")
    case (Inl e)
    then have "join_ocred_pdf self w = Inl (e, debug self (We_have_ocred_files (length l)) w)"
      using lf by (simp add: join_ocred_pdf_def l[symmetric] Let_def)
    moreover have "e = FileNotFoundError \<or> e = SameFileError"
      using Inl by (auto simp: copyfile_def split: if_splits option.splits)
    ultimately show ?thesis by blast
  next
    case (Inr fs')
    then obtain c where c: "map_of (files w) f = Some c"
      and fs': "fs' = AList.update (ocr_pdf self) c (files w)"
      by (auto simp: copyfile_def split: if_splits option.splits)
    have "join_ocred_pdf self w =
        Inr (debug self joined_ocred_files
              ((debug self (We_have_ocred_files (length l)) w)
                 \<lparr>files := AList.update (ocr_pdf self) c (files w)\<rparr>))"
      using Inr lf fs' by (simp add: join_ocred_pdf_def l[symmetric] Let_def)
    moreover have "pages_of c = concat (map (\<lambda>f. pages_of (the (map_of (files w) f))) l)"
      using lf c by simp
    ultimately show ?thesis by blast
  qed
qed

text \<open>
  Claim C7, as amended. \<open>join_ocred_pdf\<close> reports no missing overlay. For every state of
  the temporary directory, whatever overlays expected from the page images are missing,
  with \<open>l\<close> the sorted list of the overlays found:

  \<^item> When \<open>l\<close> is not empty, nothing is printed on the error stream. On standard output,
    in verbose mode only, the number of overlays found is printed and, when the call
    returns, the line that the files were joined; otherwise nothing is printed.
  \<^item> When \<open>l\<close> is not empty and the call returns, the assembled overlay exists and its
    pages are exactly the pages of the overlays in \<open>l\<close>, in the order of \<open>l\<close>: a page
    whose overlay is missing is absent from it.
  \<^item> When \<open>l\<close> is not empty and the call raises, the exception is \<open>PdfReadError\<close>,
    \<open>FileNotFoundError\<close> or \<open>SameFileError\<close>, and the files are as they were.
  \<^item> When \<open>l\<close> is not empty, every file of \<open>l\<close> is a readable document and the assembled
    overlay \<open>-ocr.pdf\<close> is not in \<open>l\<close>, the call returns.
  \<^item> When \<open>l\<close> is empty, the call ends with \<open>SystemExit 1\<close> after printing on the error
    stream that no PDF files were generated.
\<close>

theorem join_ocred_pdf_ignores_missing:
  assumes "l = text_pdf_file_list self w"
  shows
  "(l \<noteq> [] \<longrightarrow>
      stderr (world_of (join_ocred_pdf self w)) = stderr w \<and>
      stdout (world_of (join_ocred_pdf self w)) = stdout w @
        (if verbose_mode self
         then (DEBUG, We_have_ocred_files (length l)) #
              (if isl (join_ocred_pdf self w) then [] else [(DEBUG, joined_ocred_files)])
         else []) \<and>
      (\<forall>w'. join_ocred_pdf self w = Inr w' \<longrightarrow>
         (\<exists>c. map_of (files w') (ocr_pdf self) = Some c \<and>
              pages_of c = concat (map (\<lambda>f. pages_of (the (map_of (files w) f))) l))) \<and>
      (\<forall>e w'. join_ocred_pdf self w = Inl (e, w') \<longrightarrow>
         (e = PdfReadError \<or> e = FileNotFoundError \<or> e = SameFileError) \<and>
         files w' = files w) \<and>
      ((\<forall>f\<in>set l. is_pdf (map_of (files w) f)) \<and> ocr_pdf self \<notin> set l \<longrightarrow>
         \<not> isl (join_ocred_pdf self w))) \<and>
   (l = [] \<longrightarrow>
      (\<exists>w'. join_ocred_pdf self w = Inl (SystemExit 1, w') \<and>
         stderr w' = stderr w @ [no_pdf_files_generated]
           @ (if delete_temps self then [] else [Text (''Temporary files kept in '' @ tmp_dir self)])))"
proof (intro conjI impI)
  assume ne: "l \<noteq> []"
  let ?w1 = "debug self (We_have_ocred_files (length l)) w"
  from join_ocred_pdf_outcome[OF assms ne]
  consider (fail) e where "join_ocred_pdf self w = Inl (e, ?w1)"
      "e = PdfReadError \<or> e = FileNotFoundError \<or> e = SameFileError"
    | (ok) c where "join_ocred_pdf self w =
        Inr (debug self joined_ocred_files (?w1\<lparr>files := AList.update (ocr_pdf self) c (files w)\<rparr>))"
      "pages_of c = concat (map (\<lambda>f. pages_of (the (map_of (files w) f))) l)"
    by blast
  note outcome = this
  show "stderr (world_of (join_ocred_pdf self w)) = stderr w"
  proof (cases rule: outcome)
    case fail
    then show ?thesis by (simp add: world_of_def)
  next
    case ok
    then show ?thesis by (simp add: world_of_def debug_def)
  qed
  show "stdout (world_of (join_ocred_pdf self w)) = stdout w @
        (if verbose_mode self
         then (DEBUG, We_have_ocred_files (length l)) #
              (if isl (join_ocred_pdf self w) then [] else [(DEBUG, joined_ocred_files)])
         else [])"
  proof (cases rule: outcome)
    case fail
    then show ?thesis by (simp add: world_of_def debug_def)
  next
    case ok
    then show ?thesis by (simp add: world_of_def debug_def)
  qed
  show "\<forall>w'. join_ocred_pdf self w = Inr w' \<longrightarrow>
         (\<exists>c. map_of (files w') (ocr_pdf self) = Some c \<and>
              pages_of c = concat (map (\<lambda>f. pages_of (the (map_of (files w) f))) l))"
  proof (cases rule: outcome)
    case fail
    then show ?thesis by simp
  next
    case ok
    have "map_of (files (debug self joined_ocred_files
            (?w1\<lparr>files := AList.update (ocr_pdf self) c (files w)\<rparr>))) (ocr_pdf self) = Some c"
      by (simp add: debug_def update_conv')
    then show ?thesis using ok by auto
  qed
  show "\<forall>e w'. join_ocred_pdf self w = Inl (e, w') \<longrightarrow>
         (e = PdfReadError \<or> e = FileNotFoundError \<or> e = SameFileError) \<and>
         files w' = files w"
  proof (cases rule: outcome)
    case fail
    then show ?thesis by auto
  next
    case ok
    then show ?thesis by simp
  qed
  show "\<not> isl (join_ocred_pdf self w)"
    if "(\<forall>f\<in>set l. is_pdf (map_of (files w) f)) \<and> ocr_pdf self \<notin> set l"
    using join_ocred_pdf_some[OF assms ne] that by simp
next
  assume "l = []"
  then have e: "text_pdf_file_list self w = []" using assms by simp
  have "join_ocred_pdf self w =
      Inl (SystemExit 1,
           cleanup self (eprint no_pdf_files_generated (debug self (We_have_ocred_files 0) w)))"
    by (simp add: join_ocred_pdf_def e)
  then show "\<exists>w'. join_ocred_pdf self w = Inl (SystemExit 1, w') \<and>
         stderr w' = stderr w @ [no_pdf_files_generated]
           @ (if delete_temps self then [] else [Text (''Temporary files kept in '' @ tmp_dir self)])"
    by (simp add: stderr_cleanup)
qed

lemma hole_overlays:
  "text_pdf_file_list self_ex w_hole = [''/tmp/pfx-001.pdf'', ''/tmp/pfx-003.pdf'']"
  "\<forall>f\<in>set [''/tmp/pfx-001.pdf'', ''/tmp/pfx-003.pdf'']. is_pdf (map_of (files w_hole) f)"
  "ocr_pdf self_ex \<notin> set [''/tmp/pfx-001.pdf'', ''/tmp/pfx-003.pdf'']"
  "concat (map (\<lambda>f. pages_of (the (map_of (files w_hole) f)))
     [''/tmp/pfx-001.pdf'', ''/tmp/pfx-003.pdf'']) = [''page 1'', ''page 3'']"
  "missing_overlays self_ex w_hole = [''/tmp/pfx-002.pdf'']"
  "stderr w_hole = []" "stdout w_hole = []" "verbose_mode self_ex"
  by code_simp+

lemma damaged_overlays:
  "text_pdf_file_list self_ex w_damaged = [''/tmp/pfx-001.pdf'', ''/tmp/pfx-003.pdf'']"
  "join_ocred_pdf self_ex w_damaged =
     Inl (PdfReadError, debug self_ex (We_have_ocred_files 2) w_damaged)"
  "stderr w_damaged = []" "stdout w_damaged = []"
  "missing_overlays self_ex w_damaged = [''/tmp/pfx-002.pdf'']"
  by code_simp+

lemma no_overlays:
  "text_pdf_file_list self_ex w_none = []" "stderr w_none = []" "delete_temps self_ex"
  by code_simp+

theorem join_ocred_pdf_ignores_missing_witness:
  "text_pdf_file_list self_ex w_hole = [''/tmp/pfx-001.pdf'', ''/tmp/pfx-003.pdf''] \<and>
   missing_overlays self_ex w_hole = [''/tmp/pfx-002.pdf''] \<and>
   (\<exists>w'. join_ocred_pdf self_ex w_hole = Inr w' \<and>
      stderr w' = [] \<and>
      stdout w' = [(DEBUG, We_have_ocred_files 2), (DEBUG, joined_ocred_files)] \<and>
      pages_of (the (map_of (files w') (ocr_pdf self_ex))) = [''page 1'', ''page 3'']) \<and>
   text_pdf_file_list self_ex w_damaged = [''/tmp/pfx-001.pdf'', ''/tmp/pfx-003.pdf''] \<and>
   missing_overlays self_ex w_damaged = [''/tmp/pfx-002.pdf''] \<and>
   (\<exists>w'. join_ocred_pdf self_ex w_damaged = Inl (PdfReadError, w') \<and>
      files w' = files w_damaged \<and>
      stderr w' = [] \<and>
      stdout w' = [(DEBUG, We_have_ocred_files 2)]) \<and>
   text_pdf_file_list self_ex w_none = [] \<and>
   (\<exists>w'. join_ocred_pdf self_ex w_none = Inl (SystemExit 1, w') \<and>
      stderr w' = [no_pdf_files_generated])"
proof -
  note h = hole_overlays
  note d = damaged_overlays
  note z = no_overlays
  have ne: "[''/tmp/pfx-001.pdf'', ''/tmp/pfx-003.pdf''] \<noteq> []" by simp
  note T = join_ocred_pdf_ignores_missing[OF h(1)[symmetric]]
  from T ne h(2) h(3) have "\<not> isl (join_ocred_pdf self_ex w_hole)" by blast
  then obtain w' where j: "join_ocred_pdf self_ex w_hole = Inr w'"
    by (cases "join_ocred_pdf self_ex w_hole") simp_all
  have wo: "world_of (join_ocred_pdf self_ex w_hole) = w'"
    unfolding j by (simp add: world_of_def)
  from T ne have e: "stderr (world_of (join_ocred_pdf self_ex w_hole)) = stderr w_hole"
    and s: "stdout (world_of (join_ocred_pdf self_ex w_hole)) = stdout w_hole @
        (if verbose_mode self_ex
         then (DEBUG, We_have_ocred_files (length [''/tmp/pfx-001.pdf'', ''/tmp/pfx-003.pdf''])) #
              (if isl (join_ocred_pdf self_ex w_hole) then [] else [(DEBUG, joined_ocred_files)])
         else [])"
    and m: "\<forall>w'. join_ocred_pdf self_ex w_hole = Inr w' \<longrightarrow>
         (\<exists>c. map_of (files w') (ocr_pdf self_ex) = Some c \<and>
              pages_of c = concat (map (\<lambda>f. pages_of (the (map_of (files w_hole) f)))
                 [''/tmp/pfx-001.pdf'', ''/tmp/pfx-003.pdf'']))"
    by blast+
  from m j obtain c where c: "map_of (files w') (ocr_pdf self_ex) = Some c"
    and p: "pages_of c = concat (map (\<lambda>f. pages_of (the (map_of (files w_hole) f)))
                 [''/tmp/pfx-001.pdf'', ''/tmp/pfx-003.pdf''])"
    by blast
  have p': "pages_of (the (map_of (files w') (ocr_pdf self_ex))) = [''page 1'', ''page 3'']"
    using p unfolding h(4) by (simp add: c)
  have e': "stderr w' = []" using e unfolding wo by (simp add: h(6))
  have s': "stdout w' = [(DEBUG, We_have_ocred_files 2), (DEBUG, joined_ocred_files)]"
    using s unfolding wo by (simp add: h(7) h(8) j)
  have a: "\<exists>w'. join_ocred_pdf self_ex w_hole = Inr w' \<and>
      stderr w' = [] \<and>
      stdout w' = [(DEBUG, We_have_ocred_files 2), (DEBUG, joined_ocred_files)] \<and>
      pages_of (the (map_of (files w') (ocr_pdf self_ex))) = [''page 1'', ''page 3'']"
    by (intro exI conjI) (rule j, rule e', rule s', rule p')
  note D = join_ocred_pdf_ignores_missing[OF d(1)[symmetric]]
  let ?wd = "debug self_ex (We_have_ocred_files 2) w_damaged"
  have wd: "world_of (join_ocred_pdf self_ex w_damaged) = ?wd"
    unfolding d(2) by (simp add: world_of_def)
  from D ne have de: "stderr (world_of (join_ocred_pdf self_ex w_damaged)) = stderr w_damaged"
    and ds: "stdout (world_of (join_ocred_pdf self_ex w_damaged)) = stdout w_damaged @
        (if verbose_mode self_ex
         then (DEBUG, We_have_ocred_files (length [''/tmp/pfx-001.pdf'', ''/tmp/pfx-003.pdf''])) #
              (if isl (join_ocred_pdf self_ex w_damaged) then [] else [(DEBUG, joined_ocred_files)])
         else [])"
    and df: "\<forall>e w'. join_ocred_pdf self_ex w_damaged = Inl (e, w') \<longrightarrow>
         (e = PdfReadError \<or> e = FileNotFoundError \<or> e = SameFileError) \<and>
         files w' = files w_damaged"
    by blast+
  have df': "files ?wd = files w_damaged" using df d(2) by blast
  have de': "stderr ?wd = []" using de unfolding wd by (simp add: d(3))
  have ds': "stdout ?wd = [(DEBUG, We_have_ocred_files 2)]"
    using ds unfolding wd by (simp add: d(4) h(8) d(2))
  have b: "\<exists>w'. join_ocred_pdf self_ex w_damaged = Inl (PdfReadError, w') \<and>
      files w' = files w_damaged \<and>
      stderr w' = [] \<and>
      stdout w' = [(DEBUG, We_have_ocred_files 2)]"
    by (intro exI conjI) (rule d(2), rule df', rule de', rule ds')
  note Z = join_ocred_pdf_ignores_missing[OF z(1)[symmetric]]
  from Z obtain wz where zj: "join_ocred_pdf self_ex w_none = Inl (SystemExit 1, wz)"
    and zs: "stderr wz = stderr w_none @ [no_pdf_files_generated]
           @ (if delete_temps self_ex then [] else [Text (''Temporary files kept in '' @ tmp_dir self_ex)])"
    by blast
  have zs': "stderr wz = [no_pdf_files_generated]"
    using zs by (simp add: z(2) z(3))
  have n: "\<exists>w'. join_ocred_pdf self_ex w_none = Inl (SystemExit 1, w') \<and>
      stderr w' = [no_pdf_files_generated]"
    by (intro exI conjI) (rule zj, rule zs')
  show ?thesis
    by (intro conjI) (rule h(1) h(5) a d(1) d(5) b z(1) n)+
qed

section \<open>Properties of the finalizer\<close>

text \<open>
  The metadata loop on keys whose values it can handle: every key has a value, and the
  producer, when it is among the keys, is a text string. The loop then succeeds; the
  producer gets the signature appended, every other value that \<open>createStringObject\<close>
  accepts is copied, and every other value is dropped with one warning.
\<close>

lemma copy_metadata_text:
  assumes "\<forall>k\<in>set keys. map_of md k \<noteq> None"
    and "producer_key \<in> set keys \<longrightarrow> (\<exists>s. map_of md producer_key = Some (Str s))"
    and "distinct keys"
  shows "\<exists>out' w'. copy_metadata md keys out rp w = Inr (out', rp \<or> producer_key \<in> set keys, w') \<and>
    files w' = files w \<and>
    stderr w' = stderr w @ map warning_not_copied
      (filter (\<lambda>k. k \<noteq> producer_key \<and> \<not> createStringObject (the (map_of md k))) keys) \<and>
    (\<forall>k. map_of out' k =
       (if k \<in> set keys then
          (if k = producer_key
           then py_add_str (the (map_of md k)) (''; '' @ our_name)
           else if createStringObject (the (map_of md k)) then map_of md k else map_of out k)
        else map_of out k))"
  using assms
proof (induction keys arbitrary: out rp w)
  case Nil
  then show ?case by simp
next
  case (Cons key keys)
  from Cons.prems(1) obtain v where v: "map_of md key = Some v" by auto
  have rest1: "\<forall>k\<in>set keys. map_of md k \<noteq> None" using Cons.prems(1) by simp
  have rest2: "producer_key \<in> set keys \<longrightarrow> (\<exists>s. map_of md producer_key = Some (Str s))"
    using Cons.prems(2) by simp
  have rest3: "distinct keys" and fresh: "key \<notin> set keys" using Cons.prems(3) by simp_all
  show ?case
  proof (cases "key = producer_key")
    case True
    with Cons.prems(2) v obtain s where s: "v = Str s" by auto
    let ?v' = "Str (s @ ''; '' @ our_name)"
    from Cons.IH[OF rest1 rest2 rest3, of "AList.update key ?v' out" True w]
    obtain out' w' where
      r: "copy_metadata md keys (AList.update key ?v' out) True w = Inr (out', True, w')"
      and f: "files w' = files w"
      and e: "stderr w' = stderr w @ map warning_not_copied
        (filter (\<lambda>k. k \<noteq> producer_key \<and> \<not> createStringObject (the (map_of md k))) keys)"
      and m: "\<forall>k. map_of out' k =
         (if k \<in> set keys then
            (if k = producer_key
             then py_add_str (the (map_of md k)) (''; '' @ our_name)
             else if createStringObject (the (map_of md k)) then map_of md k
                  else map_of (AList.update key ?v' out) k)
          else map_of (AList.update key ?v' out) k)"
      by auto
    have c: "copy_metadata md (key # keys) out rp w = Inr (out', True, w')"
      using True v s r by simp
    have m': "\<forall>k. map_of out' k =
       (if k \<in> set (key # keys) then
          (if k = producer_key
           then py_add_str (the (map_of md k)) (''; '' @ our_name)
           else if createStringObject (the (map_of md k)) then map_of md k else map_of out k)
        else map_of out k)"
      using m True v s fresh by (auto simp: update_conv')
    show ?thesis using c f e m' True by simp
  next
    case False
    show ?thesis
    proof (cases "createStringObject v")
      case ok: True
      from Cons.IH[OF rest1 rest2 rest3, of "AList.update key v out" rp w]
      obtain out' w' where
        r: "copy_metadata md keys (AList.update key v out) rp w
              = Inr (out', rp \<or> producer_key \<in> set keys, w')"
        and f: "files w' = files w"
        and e: "stderr w' = stderr w @ map warning_not_copied
          (filter (\<lambda>k. k \<noteq> producer_key \<and> \<not> createStringObject (the (map_of md k))) keys)"
        and m: "\<forall>k. map_of out' k =
           (if k \<in> set keys then
              (if k = producer_key
               then py_add_str (the (map_of md k)) (''; '' @ our_name)
               else if createStringObject (the (map_of md k)) then map_of md k
                    else map_of (AList.update key v out) k)
            else map_of (AList.update key v out) k)"
        by auto
      have c: "copy_metadata md (key # keys) out rp w
                 = Inr (out', rp \<or> producer_key \<in> set (key # keys), w')"
        using False v ok r by auto
      have m': "\<forall>k. map_of out' k =
         (if k \<in> set (key # keys) then
            (if k = producer_key
             then py_add_str (the (map_of md k)) (''; '' @ our_name)
             else if createStringObject (the (map_of md k)) then map_of md k else map_of out k)
          else map_of out k)"
        using m False v ok fresh by (auto simp: update_conv')
      show ?thesis using c f e m' False v ok by simp
    next
      case bad: False
      let ?w1 = "eprint (warning_not_copied key) w"
      from Cons.IH[OF rest1 rest2 rest3, of out rp ?w1]
      obtain out' w' where
        r: "copy_metadata md keys out rp ?w1 = Inr (out', rp \<or> producer_key \<in> set keys, w')"
        and f: "files w' = files ?w1"
        and e: "stderr w' = stderr ?w1 @ map warning_not_copied
          (filter (\<lambda>k. k \<noteq> producer_key \<and> \<not> createStringObject (the (map_of md k))) keys)"
        and m: "\<forall>k. map_of out' k =
           (if k \<in> set keys then
              (if k = producer_key
               then py_add_str (the (map_of md k)) (''; '' @ our_name)
               else if createStringObject (the (map_of md k)) then map_of md k
                    else map_of out k)
            else map_of out k)"
        by auto
      have c: "copy_metadata md (key # keys) out rp w
                 = Inr (out', rp \<or> producer_key \<in> set (key # keys), w')"
        using False v bad r by auto
      have m': "\<forall>k. map_of out' k =
         (if k \<in> set (key # keys) then
            (if k = producer_key
             then py_add_str (the (map_of md k)) (''; '' @ our_name)
             else if createStringObject (the (map_of md k)) then map_of md k else map_of out k)
          else map_of out k)"
        using m False v bad fresh by auto
      show ?thesis using c f e m' False v bad by simp
    qed
  qed
qed

text \<open>
  Finalization when the producer entry, if there is one, is a text string: it succeeds,
  the output's producer is the source producer followed by \<open>; \<close> and the signature (the
  signature alone when the source has no producer), every other entry is copied when
  \<open>createStringObject\<close> accepts its value and dropped with a warning otherwise.
\<close>

lemma edit_producer_text_producer:
  assumes cand: "map_of (files w) (output_pdf self) = Some (Pdf pages i)"
    and md: "input_file_metadata self = Some md"
    and prod: "map_of md producer_key = None \<or> (\<exists>s. map_of md producer_key = Some (Str s))"
  shows "\<exists>w' info. edit_producer self w = Inr w' \<and>
    map_of (files w') (output_file self) = Some (Pdf pages info) \<and>
    map_of info producer_key =
      (case map_of md producer_key of
         Some (Str s) \<Rightarrow> Some (Str (s @ ''; '' @ our_name))
       | _ \<Rightarrow> Some (Str our_name)) \<and>
    (\<forall>k. k \<noteq> producer_key \<longrightarrow>
       map_of info k =
         (case map_of md k of
            Some v \<Rightarrow> if createStringObject v then Some v else None
          | None \<Rightarrow> None)) \<and>
    stderr w' = stderr w @ map warning_not_copied
      (filter (\<lambda>k. k \<noteq> producer_key \<and> \<not> createStringObject (the (map_of md k)))
         (remdups (map fst md)))"
proof -
  let ?keys = "remdups (map fst md)"
  let ?w1 = "debug self (Text ''Editing producer'') w"
  have k1: "\<forall>k\<in>set ?keys. map_of md k \<noteq> None"
    by (simp add: map_of_eq_None_iff)
  have k2: "producer_key \<in> set ?keys \<longrightarrow> (\<exists>s. map_of md producer_key = Some (Str s))"
    using prod by (auto simp: map_of_eq_None_iff)
  have k3: "distinct ?keys" by simp
  from copy_metadata_text[OF k1 k2 k3, of "[]" False ?w1]
  obtain out' w2 where
    r: "copy_metadata md ?keys [] False ?w1 = Inr (out', producer_key \<in> set ?keys, w2)"
    and f: "files w2 = files w"
    and e: "stderr w2 = stderr w @ map warning_not_copied
      (filter (\<lambda>k. k \<noteq> producer_key \<and> \<not> createStringObject (the (map_of md k))) ?keys)"
    and m: "\<forall>k. map_of out' k =
       (if k \<in> set ?keys then
          (if k = producer_key
           then py_add_str (the (map_of md k)) (''; '' @ our_name)
           else if createStringObject (the (map_of md k)) then map_of md k else None)
        else None)"
    by auto
  let ?info = "if producer_key \<notin> set ?keys
               then AList.update producer_key (Str our_name) out' else out'"
  let ?w' = "w2\<lparr>files := AList.update (output_file self) (Pdf pages ?info) (files w2)\<rparr>"
  have ep: "edit_producer self w = Inr ?w'"
    using cand md r by (simp add: edit_producer_def Let_def)
  have o: "map_of (files ?w') (output_file self) = Some (Pdf pages ?info)"
    by (simp add: update_conv')
  have inkeys: "(k \<in> set ?keys) = (map_of md k \<noteq> None)" for k
    by (simp add: map_of_eq_None_iff)
  have p: "map_of ?info producer_key =
      (case map_of md producer_key of
         Some (Str s) \<Rightarrow> Some (Str (s @ ''; '' @ our_name))
       | _ \<Rightarrow> Some (Str our_name))"
  proof (cases "map_of md producer_key")
    case None
    then have "producer_key \<notin> set ?keys" using inkeys[of producer_key] by simp
    then show ?thesis using None by (simp add: update_conv')
  next
    case (Some v)
    with prod obtain s where s: "v = Str s" by auto
    have "producer_key \<in> set ?keys" using inkeys[of producer_key] Some by simp
    then show ?thesis using Some s m by simp
  qed
  have q: "\<forall>k. k \<noteq> producer_key \<longrightarrow>
       map_of ?info k =
         (case map_of md k of
            Some v \<Rightarrow> if createStringObject v then Some v else None
          | None \<Rightarrow> None)"
  proof (intro allI impI)
    fix k
    assume ne: "k \<noteq> producer_key"
    have "map_of ?info k = map_of out' k" using ne by (simp add: update_conv')
    also have "\<dots> = (case map_of md k of
            Some v \<Rightarrow> if createStringObject v then Some v else None
          | None \<Rightarrow> None)"
      using m ne inkeys[of k] by (cases "map_of md k") auto
    finally show "map_of ?info k =
         (case map_of md k of
            Some v \<Rightarrow> if createStringObject v then Some v else None
          | None \<Rightarrow> None)" .
  qed
  have e': "stderr ?w' = stderr w @ map warning_not_copied
      (filter (\<lambda>k. k \<noteq> producer_key \<and> \<not> createStringObject (the (map_of md k))) ?keys)"
    using e by simp
  show ?thesis
    using ep o p q e' by blast
qed

text \<open>
  Claim C9, evaluated where the producer entry of the source is not a text string (here an
  array). The signature is appended to the producer value before the \<open>try\<close> block that
  guards the other entries, so the concatenation raises \<open>TypeError\<close> and nothing catches
  it: \<open>edit_producer\<close> fails, prints no warning and writes no output file. An
  array-valued entry under any other key is dropped with a warning, and a source without a
  producer gets the signature alone, as the claim says.
\<close>

theorem non_text_producer_is_fatal:
  "map_of (the (input_file_metadata self_array_producer)) producer_key
     = Some (ArrayObject [Str ''Scanner'']) \<and>
   isfile (files w_candidate) (output_pdf self_array_producer) \<and>
   isl (edit_producer self_array_producer w_candidate) \<and>
   fst (projl (edit_producer self_array_producer w_candidate)) = TypeError \<and>
   stderr (world_of (edit_producer self_array_producer w_candidate)) = [] \<and>
   \<not> isfile (files (world_of (edit_producer self_array_producer w_candidate)))
        (output_file self_array_producer) \<and>
   \<not> isl (edit_producer self_text_producer w_candidate) \<and>
   stderr (world_of (edit_producer self_text_producer w_candidate)) =
     [warning_not_copied ''/Title''] \<and>
   map_of (files (world_of (edit_producer self_text_producer w_candidate)))
       (output_file self_text_producer) =
     Some (Pdf [''merged 1'', ''merged 2'']
            [(''/Producer'', Str (''Scanner; '' @ our_name)), (''/Author'', Str ''A. Writer'')]) \<and>
   map_of (files (world_of (edit_producer self_no_producer w_candidate)))
       (output_file self_no_producer) =
     Some (Pdf [''merged 1'', ''merged 2'']
            [(''/Author'', Str ''A. Writer''), (''/Producer'', Str our_name)])"
  by code_simp

end
